theory Spec2Isabelle
  imports Main "HOL-Library.AList"
begin

section \<open>Data model (modules/storage.py)\<close>

type_synonym checksum = string
type_synonym bytes = string

text \<open>
  \<^verbatim>\<open>FileData\<close> is the pydantic model of modules/storage.py; the field \<^verbatim>\<open>size\<close> is
  called \<open>fsize\<close> here because \<open>size\<close> is a constant of HOL.
\<close>

record FileData =
  file_reference :: string
  name :: string
  mime_type :: string
  fsize :: int
  modified_time :: string
  raw_ocr :: "string option"
  summary :: "string option"

text \<open>\<^verbatim>\<open>RawFileData\<close> (a TypedDict with keys content, name, mime_type).\<close>

record RawFileData =
  content :: bytes
  raw_name :: string
  raw_mime_type :: string

record FileDataResponse =
  r_checksum :: checksum
  is_processing :: bool
  file_data :: FileData

text \<open>
  \<^verbatim>\<open>SearchQuery\<close>; its field \<^verbatim>\<open>keywords\<close> is \<open>query_keywords\<close> here (the word is
  reserved in theory headers).  Dates are kept as their ISO strings.
\<close>

record SearchQuery =
  max_results :: int
  query_keywords :: "string list"
  last_modified_since :: "string option"
  last_modified_before :: "string option"
  around_date :: "string option"

text \<open>The literal type of \<^verbatim>\<open>ensure_process\<close>: "none", "ocr", "summary".\<close>

datatype ensure_process = P_none | P_ocr | P_summary

datatype adapter = Local | S3 | GDrive

subsection \<open>Exceptions and call outcomes\<close>

text \<open>
  Every exception the storage code raises or lets through is a value.  \<open>HTTPException\<close>
  carries the status code and the detail; \<open>ClientError\<close> is botocore's, with its
  error code; \<open>HttpError\<close> is the Drive client's; \<open>CollaboratorError\<close> is whatever
  the OCR or summarisation service raised.
\<close>

datatype error =
    ValueError string
  | FileNotFoundError string
  | JSONDecodeError
  | AttributeError
  | TypeError
  | KeyError string
  | ValidationError
  | ClientError string
  | HttpError
  | CollaboratorError string
  | HTTPException nat string

text \<open>
  A call returns, raises, or waits on an \<^verbatim>\<open>asyncio.Lock\<close> that nobody releases
  (\<open>Blocked\<close>: the call never comes back).
\<close>

datatype 'a outcome = Returns 'a | Raises error | Blocked

subsection \<open>The metadata document\<close>

text \<open>
  The code reads the document through two library calls, \<^verbatim>\<open>json.loads\<close> and the pydantic
  constructor \<^verbatim>\<open>FileData(**file_dict)\<close>, and the document is kept here as what these
  calls make of it; their parsing and validation rules are not modelled.

  An entry of the \<^verbatim>\<open>files\<close> object is one that \<^verbatim>\<open>FileData(**file_dict)\<close> accepts, with
  the model it builds; or a value that is no mapping (a \<^verbatim>\<open>TypeError\<close> of the call); or
  a mapping the validation refuses (a pydantic \<^verbatim>\<open>ValidationError\<close>).
\<close>

datatype entry = Valid FileData | Not_a_mapping | Invalid

text \<open>
  What \<^verbatim>\<open>metadata.get('files', {})\<close> finds in a parsed dict: the \<^verbatim>\<open>.items()\<close> of a dict
  (the keys of a parsed dict are distinct, a repeated key of the text having kept its
  last value), or a value without \<^verbatim>\<open>.items()\<close>.
\<close>

datatype files_value = Files "(checksum \<times> entry) list" | Not_files

text \<open>
  What \<^verbatim>\<open>json.loads\<close> returns: a dict, with the value under \<^verbatim>\<open>'files'\<close> when it has that
  key, or a value that is no dict.
\<close>

datatype json = Not_a_dict | Dict "files_value option"

text \<open>
  The content of the remote metadata document: no bytes at all, bytes that
  \<^verbatim>\<open>json.loads\<close> refuses, or the text of a JSON value.
\<close>

datatype body = Empty_body | Not_json | Json json

text \<open>
  The effects of one adapter, in the order they happen.  The log is a ghost field: no
  code reads it.
\<close>

datatype event =
    Cache_write
  | Remote_write body
  | Object_put string
  | Object_delete string
  | Init_body

text \<open>
  One adapter instance together with its storage medium.
  \<^item> \<open>file_cache\<close>: the \<^verbatim>\<open>files\<close> dict of the JsonDB cache, in insertion order;
  \<^item> \<open>processing_locks\<close>: the dict of \<^verbatim>\<open>asyncio.Lock\<close>s, \<open>True\<close> for a held lock;
  \<^item> \<open>initialized\<close>: \<^verbatim>\<open>_folder_initialized\<close> (local, gdrive), \<^verbatim>\<open>_layout_initialized\<close> (s3);
  \<^item> \<open>layout_lock\<close>: whether \<^verbatim>\<open>_layout_lock\<close> of the S3 adapter is held;
  \<^item> \<open>metadata_doc\<close>: the file_metadata.json of the medium, \<open>None\<close> when there is none;
  \<^item> \<open>layout_exists\<close>: the directories (local) or the files folder (gdrive) exist;
  \<^item> \<open>objects\<close>: the stored files, by path, key or Drive id;
  \<^item> \<open>now\<close>: the time stamp the clock or the medium hands out;
  \<^item> \<open>next_id\<close>: the number of Drive ids handed out so far;
  \<^item> \<open>tasks\<close>: the calls of \<^verbatim>\<open>ensure_ocr\<close> handed to \<^verbatim>\<open>asyncio.create_task\<close>, in order.
\<close>

record storage =
  file_cache :: "(checksum \<times> FileData) list"
  processing_locks :: "checksum \<rightharpoonup> bool"
  initialized :: bool
  layout_lock :: bool
  metadata_doc :: "body option"
  layout_exists :: bool
  objects :: "(string \<times> bytes) list"
  now :: string
  next_id :: nat
  tasks :: "(checksum \<times> ensure_process \<times> RawFileData) list"
  log :: "event list"

subsection \<open>The JsonDB cache\<close>

text \<open>
  Modelled from the spec: utils/jsondb.py (class JsonDB) is not among the sources.  The
  spec describes the Metadata Cache Store as a mapping from checksum to file metadata
  with scoped read/modify/write access whose reads are immutable snapshots.  So
  \<^verbatim>\<open>await self.file_cache.read()\<close> is the current mapping as a value, and a block
  \<^verbatim>\<open>async with self.file_cache as db\<close> that ends normally replaces the mapping; a block
  left by an exception leaves it as it was.
\<close>

definition read_cache :: "storage \<Rightarrow> (checksum \<times> FileData) list" where
  "read_cache s = file_cache s"

definition cache_write ::
  "((checksum \<times> FileData) list \<Rightarrow> (checksum \<times> FileData) list) \<Rightarrow> storage \<Rightarrow> storage" where
  "cache_write f s = s\<lparr>file_cache := f (file_cache s), log := log s @ [Cache_write]\<rparr>"

definition put_metadata :: "body \<Rightarrow> storage \<Rightarrow> storage" where
  "put_metadata b s = s\<lparr>metadata_doc := Some b, log := log s @ [Remote_write b]\<rparr>"

subsection \<open>Serialising and loading the cache\<close>

text \<open>
  \<^verbatim>\<open>cache.model_dump_json()\<close> of a \<^verbatim>\<open>FileDataCache\<close>: the JSON object with the one key
  \<^verbatim>\<open>files\<close>, bound to the whole cache, every entry in its order.  Each entry of that
  text is one that \<^verbatim>\<open>FileData(**file_dict)\<close> accepts and reads back as the model it was
  written from.
\<close>

definition model_dump_json :: "(checksum \<times> FileData) list \<Rightarrow> json" where
  "model_dump_json files = Dict (Some (Files (map (\<lambda>(c, fd). (c, Valid fd)) files)))"

text \<open>The JSON value of the literal \<^verbatim>\<open>{"files":{}}\<close>.\<close>

definition empty_document :: json where
  "empty_document = Dict (Some (Files []))"

text \<open>\<^verbatim>\<open>FileData(**file_dict)\<close>\<close>

definition mk_FileData :: "entry \<Rightarrow> error + FileData" where
  "mk_FileData d =
     (case d of
        Valid fd \<Rightarrow> Inr fd
      | Not_a_mapping \<Rightarrow> Inl TypeError
      | Invalid \<Rightarrow> Inl ValidationError)"

text \<open>\<^verbatim>\<open>metadata.get('files', {}).items()\<close>: both calls need a dict.\<close>

definition files_items :: "json \<Rightarrow> error + (checksum \<times> entry) list" where
  "files_items metadata =
     (case metadata of
        Dict v \<Rightarrow>
          (case v of
             None \<Rightarrow> Inr []
           | Some (Files fs) \<Rightarrow> Inr fs
           | Some Not_files \<Rightarrow> Inl AttributeError)
      | Not_a_dict \<Rightarrow> Inl AttributeError)"

text \<open>
  The loop \<^verbatim>\<open>for checksum, file_dict in ...: files_dict[checksum] = FileData(**file_dict)\<close>.
  It stops at the first entry that fails and names its checksum.
\<close>

fun build_files ::
  "(checksum \<times> entry) list \<Rightarrow> (checksum \<times> FileData) list \<Rightarrow> (checksum \<times> error) + (checksum \<times> FileData) list" where
  "build_files [] files_dict = Inr files_dict"
| "build_files ((c, d) # rest) files_dict =
     (case mk_FileData d of
        Inl e \<Rightarrow> Inl (c, e)
      | Inr fd \<Rightarrow> build_files rest (AList.update c fd files_dict))"

definition quote :: "string \<Rightarrow> string" where
  "quote t = [CHR 0x27] @ t @ [CHR 0x27]"

definition no_file_msg :: "checksum \<Rightarrow> string" where
  "no_file_msg c = ''No file with checksum '' @ quote c @ '' found in cache.''"

section \<open>StorageInterface (modules/storage.py)\<close>

text \<open>\<^verbatim>\<open>get_file_data(checksum)\<close> with the default \<^verbatim>\<open>ensure_process="none"\<close>.\<close>

definition get_file_data_plain :: "checksum \<Rightarrow> storage \<Rightarrow> FileData outcome" where
  "get_file_data_plain c s =
     (case map_of (read_cache s) c of
        None \<Rightarrow> Raises (ValueError (no_file_msg c))
      | Some fd \<Rightarrow> Returns fd)"

definition file_exists :: "checksum \<Rightarrow> storage \<Rightarrow> bool" where
  "file_exists c s = (map_of (read_cache s) c \<noteq> None)"

text \<open>\<^verbatim>\<open>checksum in self.processing_locks and self.processing_locks[checksum].locked()\<close>\<close>

definition locked :: "storage \<Rightarrow> checksum \<Rightarrow> bool" where
  "locked s c = (case processing_locks s c of None \<Rightarrow> False | Some held \<Rightarrow> held)"


text \<open>Sequencing of calls: an exception or a wait ends the caller as well.\<close>

definition and_then ::
  "'a outcome \<times> storage \<Rightarrow> ('a \<Rightarrow> storage \<Rightarrow> 'b outcome \<times> storage) \<Rightarrow> 'b outcome \<times> storage" where
  "and_then m f =
     (case m of
        (Returns x, s) \<Rightarrow> f x s
      | (Raises e, s) \<Rightarrow> (Raises e, s)
      | (Blocked, s) \<Rightarrow> (Blocked, s))"

definition startswith :: "string \<Rightarrow> string \<Rightarrow> bool" where
  "startswith t p = (take (length p) t = p)"

definition write_object :: "string \<Rightarrow> bytes \<Rightarrow> storage \<Rightarrow> storage" where
  "write_object ref b s =
     s\<lparr>objects := AList.update ref b (objects s), log := log s @ [Object_put ref]\<rparr>"

definition remove_object :: "string \<Rightarrow> storage \<Rightarrow> storage" where
  "remove_object ref s =
     s\<lparr>objects := AList.delete ref (objects s), log := log s @ [Object_delete ref]\<rparr>"

section \<open>LocalStorageInterface (modules/interfaces/local.py)\<close>

text \<open>
  \<^verbatim>\<open>self.files_folder\<close> for the instance of main.py, relative to the working
  directory the path is resolved in.
\<close>

definition files_folder :: string where
  "files_folder = ''data/local_storage/files''"

text \<open>
  \<^verbatim>\<open>_save_metadata\<close>: opening the metadata file for writing needs its directory.
\<close>

definition local_save_metadata :: "storage \<Rightarrow> unit outcome \<times> storage" where
  "local_save_metadata s =
     (let cache = read_cache s in
      if layout_exists s then (Returns (), put_metadata (Json (model_dump_json cache)) s)
      else (Raises (FileNotFoundError ''file_metadata.json''), s))"

text \<open>
  The \<^verbatim>\<open>try\<close> of \<^verbatim>\<open>_ensure_folder_structure\<close>: JSONDecodeError, KeyError and TypeError
  become a ValueError, anything else passes.
\<close>

text \<open>\<^verbatim>\<open>str(e)\<close>; for an exception of a library, its class name stands for the message.\<close>

fun digit_char :: "nat \<Rightarrow> char" where
  "digit_char n = (''0123456789'' ! (n mod 10))"

function str_nat :: "nat \<Rightarrow> string" where
  "str_nat n = (if n < 10 then [digit_char n] else str_nat (n div 10) @ [digit_char n])"
  by pat_completeness auto
termination
  by (relation "measure (\<lambda>n. n)") auto

declare str_nat.simps [simp del]

definition str_error :: "error \<Rightarrow> string" where
  "str_error e =
     (case e of
        ValueError m \<Rightarrow> m
      | FileNotFoundError m \<Rightarrow> m
      | JSONDecodeError \<Rightarrow> ''JSONDecodeError''
      | AttributeError \<Rightarrow> ''AttributeError''
      | TypeError \<Rightarrow> ''TypeError''
      | KeyError k \<Rightarrow> k
      | ValidationError \<Rightarrow> ''ValidationError''
      | ClientError code \<Rightarrow> code
      | HttpError \<Rightarrow> ''HttpError''
      | CollaboratorError m \<Rightarrow> m
      | HTTPException sc d \<Rightarrow> str_nat sc @ '': '' @ d)"

definition local_load :: "body \<Rightarrow> error + (checksum \<times> FileData) list" where
  "local_load b =
     (case b of
        Json metadata \<Rightarrow>
          (case files_items metadata of
             Inl e \<Rightarrow> Inl e
           | Inr items \<Rightarrow>
               (case build_files items [] of
                  Inl (c, TypeError) \<Rightarrow>
                    Inl (ValueError (''Metadata file is corrupted: '' @ str_error TypeError))
                | Inl (c, e) \<Rightarrow> Inl e
                | Inr files_dict \<Rightarrow> Inr files_dict))
      | _ \<Rightarrow> Inl (ValueError (''Metadata file is corrupted: '' @ str_error JSONDecodeError)))"

text \<open>
  The body of \<^verbatim>\<open>_ensure_folder_structure\<close> between the test of the flag and its
  setting.
\<close>

definition local_init_body :: "storage \<Rightarrow> unit outcome \<times> storage" where
  "local_init_body s =
     (let s1 = s\<lparr>layout_exists := True, log := log s @ [Init_body]\<rparr> in
      case metadata_doc s1 of
        Some b \<Rightarrow>
          (case local_load b of
             Inl e \<Rightarrow> (Raises e, s1)
           | Inr files_dict \<Rightarrow> (Returns (), cache_write (\<lambda>_. files_dict) s1))
      | None \<Rightarrow> local_save_metadata (cache_write (\<lambda>_. []) s1))"

definition local_ensure_folder_structure :: "storage \<Rightarrow> unit outcome \<times> storage" where
  "local_ensure_folder_structure s =
     (if initialized s then (Returns (), s)
      else and_then (local_init_body s) (\<lambda>_ s'. (Returns (), s'\<lparr>initialized := True\<rparr>)))"

definition local_add_file_data :: "checksum \<Rightarrow> FileData \<Rightarrow> storage \<Rightarrow> unit outcome \<times> storage" where
  "local_add_file_data c fd s = local_save_metadata (cache_write (AList.update c fd) s)"

definition local_download_file :: "checksum \<Rightarrow> storage \<Rightarrow> RawFileData outcome \<times> storage" where
  "local_download_file c s =
     (case get_file_data_plain c s of
        Returns fd \<Rightarrow>
          (case map_of (objects s) (file_reference fd) of
             None \<Rightarrow> (Raises (FileNotFoundError (''File not found at path: '' @ file_reference fd)), s)
           | Some b \<Rightarrow>
               (Returns \<lparr>content = b, raw_name = name fd, raw_mime_type = mime_type fd\<rparr>, s))
      | Raises e \<Rightarrow> (Raises e, s)
      | Blocked \<Rightarrow> (Blocked, s))"

definition local_delete_file :: "checksum \<Rightarrow> storage \<Rightarrow> unit outcome \<times> storage" where
  "local_delete_file c s =
     (case get_file_data_plain c s of
        Returns fd \<Rightarrow>
          (let file_path = file_reference fd;
               s1 = (if map_of (objects s) file_path \<noteq> None then remove_object file_path s else s);
               s2 = cache_write (\<lambda>files. if map_of files c \<noteq> None then AList.delete c files else files) s1
           in local_save_metadata s2)
      | Raises e \<Rightarrow> (Raises e, s)
      | Blocked \<Rightarrow> (Blocked, s))"


section \<open>AmazonS3Interface (modules/interfaces/amazons3.py)\<close>

definition files_prefix :: string where
  "files_prefix = ''LLMDocumentStore/files/''"

text \<open>
  The \<^verbatim>\<open>try\<close> of \<^verbatim>\<open>_ensure_layout\<close> on a document that exists: no bytes count as
  \<^verbatim>\<open>{"files":{}}\<close>; an entry that \<^verbatim>\<open>FileData\<close> refuses becomes a ValueError.
\<close>

definition s3_load :: "body \<Rightarrow> error + (checksum \<times> FileData) list" where
  "s3_load content_bytes =
     (let content_text = (case content_bytes of Empty_body \<Rightarrow> Json empty_document | b \<Rightarrow> b) in
      case content_text of
        Json metadata \<Rightarrow>
          (case files_items metadata of
             Inl e \<Rightarrow> Inl e
           | Inr items \<Rightarrow>
               (case build_files items [] of
                  Inl (c, e) \<Rightarrow> Inl (ValueError (''Invalid file metadata for checksum '' @ quote c))
                | Inr files_dict \<Rightarrow> Inr files_dict))
      | _ \<Rightarrow> Inl JSONDecodeError)"

text \<open>
  What runs inside \<^verbatim>\<open>async with self._layout_lock\<close> once the second test of the flag
  has failed.  \<^verbatim>\<open>get_object\<close> on a missing key raises the ClientError NoSuchKey, which
  the handler turns into the creation of the document.
\<close>

definition s3_init_body :: "storage \<Rightarrow> unit outcome \<times> storage" where
  "s3_init_body s =
     (let s1 = s\<lparr>log := log s @ [Init_body]\<rparr> in
      case metadata_doc s1 of
        Some content_bytes \<Rightarrow>
          (case s3_load content_bytes of
             Inl e \<Rightarrow> (Raises e, s1)
           | Inr files_dict \<Rightarrow> (Returns (), cache_write (\<lambda>_. files_dict) s1))
      | None \<Rightarrow> (Returns (), cache_write (\<lambda>_. []) (put_metadata (Json empty_document) s1)))"

definition s3_ensure_layout :: "storage \<Rightarrow> unit outcome \<times> storage" where
  "s3_ensure_layout s =
     (if initialized s then (Returns (), s)
      else if layout_lock s then (Blocked, s)
      else
        (let s1 = s\<lparr>layout_lock := True\<rparr> in
         if initialized s1 then (Returns (), s1\<lparr>layout_lock := False\<rparr>)
         else
           (case s3_init_body s1 of
              (Returns u, s2) \<Rightarrow> (Returns (), s2\<lparr>initialized := True, layout_lock := False\<rparr>)
            | (Raises e, s2) \<Rightarrow> (Raises e, s2\<lparr>layout_lock := False\<rparr>)
            | (Blocked, s2) \<Rightarrow> (Blocked, s2))))"

text \<open>The \<^verbatim>\<open>put_object\<close> of the whole cache under the metadata key.\<close>

definition s3_push_cache :: "storage \<Rightarrow> unit outcome \<times> storage" where
  "s3_push_cache s =
     (let cache = read_cache s; payload = Json (model_dump_json cache)
      in (Returns (), put_metadata payload s))"

definition s3_add_file_data :: "checksum \<Rightarrow> FileData \<Rightarrow> storage \<Rightarrow> unit outcome \<times> storage" where
  "s3_add_file_data c fd s =
     and_then (s3_ensure_layout s) (\<lambda>_ s1. s3_push_cache (cache_write (AList.update c fd) s1))"

definition s3_download_file :: "checksum \<Rightarrow> storage \<Rightarrow> RawFileData outcome \<times> storage" where
  "s3_download_file c s =
     and_then (s3_ensure_layout s) (\<lambda>_ s1.
       case get_file_data_plain c s1 of
         Returns fd \<Rightarrow>
           (case map_of (objects s1) (file_reference fd) of
              None \<Rightarrow> (Raises (ClientError ''NoSuchKey''), s1)
            | Some b \<Rightarrow>
                (Returns \<lparr>content = b, raw_name = name fd, raw_mime_type = mime_type fd\<rparr>, s1))
       | Raises e \<Rightarrow> (Raises e, s1)
       | Blocked \<Rightarrow> (Blocked, s1))"

definition s3_delete_file :: "checksum \<Rightarrow> storage \<Rightarrow> unit outcome \<times> storage" where
  "s3_delete_file c s =
     and_then (s3_ensure_layout s) (\<lambda>_ s1.
       case get_file_data_plain c s1 of
         Returns fd \<Rightarrow>
           (let key = file_reference fd;
                s2 = remove_object key s1;
                s3 = cache_write (\<lambda>files. if map_of files c \<noteq> None then AList.delete c files else files) s2
            in s3_push_cache s3)
       | Raises e \<Rightarrow> (Raises e, s1)
       | Blocked \<Rightarrow> (Blocked, s1))"

section \<open>GoogleDriveInterface (modules/interfaces/gdrive.py)\<close>

text \<open>
  \<^verbatim>\<open>_ensure_folder_structure\<close> on a metadata file that exists: every exception of
  \<^verbatim>\<open>json.loads\<close>, \<^verbatim>\<open>.get\<close>, \<^verbatim>\<open>.items\<close> and \<^verbatim>\<open>FileData\<close> passes to the caller.
\<close>

definition gdrive_load :: "body \<Rightarrow> error + (checksum \<times> FileData) list" where
  "gdrive_load b =
     (case b of
        Json metadata \<Rightarrow>
          (case files_items metadata of
             Inl e \<Rightarrow> Inl e
           | Inr items \<Rightarrow>
               (case build_files items [] of
                  Inl (c, e) \<Rightarrow> Inl e
                | Inr files_dict \<Rightarrow> Inr files_dict))
      | _ \<Rightarrow> Inl JSONDecodeError)"

text \<open>
  \<^verbatim>\<open>_ensure_folder_structure(service)\<close>: the main folder, then the metadata file, then the
  files folder, each looked up and created when missing.  The folders are one flag here,
  set when the last step is reached.
\<close>

definition gdrive_ensure_folder_structure :: "storage \<Rightarrow> unit outcome \<times> storage" where
  "gdrive_ensure_folder_structure s =
     (let s1 = s\<lparr>log := log s @ [Init_body]\<rparr> in
      case metadata_doc s1 of
        Some b \<Rightarrow>
          (case gdrive_load b of
             Inl e \<Rightarrow> (Raises e, s1)
           | Inr files_dict \<Rightarrow> (Returns (), (cache_write (\<lambda>_. files_dict) s1)\<lparr>layout_exists := True\<rparr>))
      | None \<Rightarrow>
          (Returns (), (cache_write (\<lambda>_. []) (put_metadata (Json empty_document) s1))\<lparr>layout_exists := True\<rparr>))"

text \<open>
  \<^verbatim>\<open>get_drive_service\<close>.  Obtaining the credentials belongs to the OAuth manager and is
  taken to succeed; what is left is the initialisation on first use.
\<close>

definition get_drive_service :: "storage \<Rightarrow> unit outcome \<times> storage" where
  "get_drive_service s =
     (if \<not> initialized s
      then and_then (gdrive_ensure_folder_structure s) (\<lambda>_ s'. (Returns (), s'\<lparr>initialized := True\<rparr>))
      else (Returns (), s))"

text \<open>\<^verbatim>\<open>service.files().update(fileId=self._file_metadata_id, media_body=...)\<close>\<close>

definition gdrive_update_metadata :: "(checksum \<times> FileData) list \<Rightarrow> storage \<Rightarrow> unit outcome \<times> storage" where
  "gdrive_update_metadata cache s = (Returns (), put_metadata (Json (model_dump_json cache)) s)"

definition gdrive_add_file_data :: "checksum \<Rightarrow> FileData \<Rightarrow> storage \<Rightarrow> unit outcome \<times> storage" where
  "gdrive_add_file_data c fd s =
     and_then (get_drive_service s) (\<lambda>_ s1.
       let s2 = cache_write (AList.update c fd) s1;
           cache = read_cache s2
       in gdrive_update_metadata cache s2)"

definition gdrive_download_file :: "checksum \<Rightarrow> storage \<Rightarrow> RawFileData outcome \<times> storage" where
  "gdrive_download_file c s =
     and_then (get_drive_service s) (\<lambda>_ s1.
       case get_file_data_plain c s1 of
         Returns fd \<Rightarrow>
           (case map_of (objects s1) (file_reference fd) of
              None \<Rightarrow> (Raises HttpError, s1)
            | Some b \<Rightarrow>
                (Returns \<lparr>content = b, raw_name = name fd, raw_mime_type = mime_type fd\<rparr>, s1))
       | Raises e \<Rightarrow> (Raises e, s1)
       | Blocked \<Rightarrow> (Blocked, s1))"

text \<open>
  \<^verbatim>\<open>delete_file\<close> of the Drive adapter is the call of \<^verbatim>\<open>get_file_data\<close> and a comment:
  \<^verbatim>\<open># Delete from Google Drive, from cache and local cache\<close>.
\<close>

definition gdrive_delete_file :: "checksum \<Rightarrow> storage \<Rightarrow> unit outcome \<times> storage" where
  "gdrive_delete_file c s =
     (case get_file_data_plain c s of
        Returns fd \<Rightarrow> (Returns (), s)
      | Raises e \<Rightarrow> (Raises e, s)
      | Blocked \<Rightarrow> (Blocked, s))"

section \<open>The operations, by adapter\<close>

definition add_file_data :: "adapter \<Rightarrow> checksum \<Rightarrow> FileData \<Rightarrow> storage \<Rightarrow> unit outcome \<times> storage" where
  "add_file_data a =
     (case a of Local \<Rightarrow> local_add_file_data | S3 \<Rightarrow> s3_add_file_data | GDrive \<Rightarrow> gdrive_add_file_data)"

definition download_file :: "adapter \<Rightarrow> checksum \<Rightarrow> storage \<Rightarrow> RawFileData outcome \<times> storage" where
  "download_file a =
     (case a of Local \<Rightarrow> local_download_file | S3 \<Rightarrow> s3_download_file | GDrive \<Rightarrow> gdrive_download_file)"

definition delete_file :: "adapter \<Rightarrow> checksum \<Rightarrow> storage \<Rightarrow> unit outcome \<times> storage" where
  "delete_file a =
     (case a of Local \<Rightarrow> local_delete_file | S3 \<Rightarrow> s3_delete_file | GDrive \<Rightarrow> gdrive_delete_file)"

text \<open>The lazy initialisation each adapter runs at the start of its public calls.\<close>

definition bootstrap :: "adapter \<Rightarrow> storage \<Rightarrow> unit outcome \<times> storage" where
  "bootstrap a =
     (case a of Local \<Rightarrow> local_ensure_folder_structure | S3 \<Rightarrow> s3_ensure_layout | GDrive \<Rightarrow> get_drive_service)"


section \<open>The derivation pipeline (StorageInterface.ensure_ocr)\<close>

text \<open>
  The two functions of modules/ocr.py that call the OCR and the language model
  services: \<^verbatim>\<open>process_document(file_data, mime_type, summarize_images=True)\<close> and
  \<^verbatim>\<open>summarize_document(raw_ocr)\<close>.  They are parameters: each returns a text or raises.
\<close>

record collaborators =
  process_document :: "bytes \<Rightarrow> string \<Rightarrow> error + string"
  summarize_document :: "string \<Rightarrow> error + string"

definition unsupported_msg :: "string \<Rightarrow> string" where
  "unsupported_msg m = ''Cannot perform OCR on file with MIME type '' @ quote m"

text \<open>
  Lines 80 to 103 of storage.py: what \<^verbatim>\<open>ensure_ocr\<close> does to the metadata once it holds
  the lock and has the raw file.
\<close>

definition derive :: "collaborators \<Rightarrow> ensure_process \<Rightarrow> RawFileData \<Rightarrow> FileData \<Rightarrow> error + FileData" where
  "derive co ep raw_file_data fd =
     (if raw_mime_type raw_file_data = ''application/pdf'' \<or> startswith (raw_mime_type raw_file_data) ''image/''
      then
        (let m = raw_mime_type raw_file_data in
         case (if raw_ocr fd = None
               then (case process_document co (content raw_file_data) m of
                       Inl e \<Rightarrow> Inl e
                     | Inr t \<Rightarrow> Inr (fd\<lparr>raw_ocr := Some t\<rparr>))
               else Inr fd) of
           Inl e \<Rightarrow> Inl e
         | Inr fd1 \<Rightarrow>
             (if ep = P_summary \<and> summary fd1 = None
              then (case raw_ocr fd1 of
                      None \<Rightarrow> Inl (ValueError ''Cannot summarize a file without OCR text.'')
                    | Some t \<Rightarrow>
                        (case summarize_document co t of
                           Inl e \<Rightarrow> Inl e
                         | Inr new_summary \<Rightarrow> Inr (fd1\<lparr>summary := Some new_summary\<rparr>)))
              else Inr fd1))
      else
        Inr (fd\<lparr>raw_ocr := Some (unsupported_msg (raw_mime_type raw_file_data)),
                summary := Some (unsupported_msg (raw_mime_type raw_file_data))\<rparr>))"

definition release :: "checksum \<Rightarrow> storage \<Rightarrow> storage" where
  "release c s = s\<lparr>processing_locks := (processing_locks s)(c \<mapsto> False)\<rparr>"

definition acquire :: "checksum \<Rightarrow> storage \<Rightarrow> storage" where
  "acquire c s = s\<lparr>processing_locks := (processing_locks s)(c \<mapsto> True)\<rparr>"

text \<open>
  \<^verbatim>\<open>ensure_ocr\<close>, run from its first line to its end with no other task in between.
  Where the lock is held already, \<^verbatim>\<open>acquire()\<close> waits for a release: \<open>Blocked\<close>.
\<close>

definition ensure_ocr ::
  "adapter \<Rightarrow> collaborators \<Rightarrow> checksum \<Rightarrow> ensure_process \<Rightarrow> RawFileData option \<Rightarrow> storage
     \<Rightarrow> unit outcome \<times> storage" where
  "ensure_ocr a co c ep raw_file_data s =
     (if ep = P_ocr \<or> ep = P_summary then
        (case map_of (read_cache s) c of
           None \<Rightarrow> (Raises (ValueError (no_file_msg c)), s)
         | Some _ \<Rightarrow>
             (let s1 = (if processing_locks s c = None
                        then s\<lparr>processing_locks := (processing_locks s)(c \<mapsto> False)\<rparr> else s)
              in if locked s1 c then (Blocked, s1)
                 else
                   (let s2 = acquire c s1 in
                    case get_file_data_plain c s2 of
                      Raises e \<Rightarrow> (Raises e, s2)
                    | Blocked \<Rightarrow> (Blocked, s2)
                    | Returns fd \<Rightarrow>
                        (if raw_ocr fd = None \<or> (ep = P_summary \<and> summary fd = None)
                         then
                           and_then
                             (case raw_file_data of
                                None \<Rightarrow> download_file a c s2
                              | Some r \<Rightarrow> (Returns r, s2))
                             (\<lambda>raw s3.
                                case derive co ep raw fd of
                                  Inl e \<Rightarrow> (Raises e, s3)
                                | Inr fd' \<Rightarrow>
                                    and_then (add_file_data a c fd' s3)
                                      (\<lambda>_ s4. (Returns (), release c s4)))
                         else (Returns (), release c s2)))))
      else (Returns (), s))"

text \<open>\<^verbatim>\<open>get_file_data(checksum, ensure_process)\<close>\<close>

definition get_file_data ::
  "adapter \<Rightarrow> collaborators \<Rightarrow> checksum \<Rightarrow> ensure_process \<Rightarrow> storage \<Rightarrow> FileData outcome \<times> storage" where
  "get_file_data a co c ep s =
     (case map_of (read_cache s) c of
        None \<Rightarrow> (Raises (ValueError (no_file_msg c)), s)
      | Some fd \<Rightarrow>
          (if ep \<noteq> P_none
           then and_then (ensure_ocr a co c ep None s) (\<lambda>_ s1.
                  case map_of (read_cache s1) c of
                    None \<Rightarrow> (Raises (KeyError c), s1)
                  | Some fd1 \<Rightarrow> (Returns fd1, s1))
           else (Returns fd, s)))"

section \<open>search_files\<close>

definition list_cache :: "storage \<Rightarrow> FileDataResponse list" where
  "list_cache s =
     map (\<lambda>(c, fd). \<lparr>r_checksum = c, is_processing = locked s c, file_data = fd\<rparr>) (read_cache s)"

definition local_search_files :: "SearchQuery \<Rightarrow> storage \<Rightarrow> FileDataResponse list outcome \<times> storage" where
  "local_search_files query s =
     and_then (local_ensure_folder_structure s) (\<lambda>_ s1. (Returns (list_cache s1), s1))"

definition s3_search_files :: "SearchQuery \<Rightarrow> storage \<Rightarrow> FileDataResponse list outcome \<times> storage" where
  "s3_search_files query s =
     and_then (s3_ensure_layout s) (\<lambda>_ s1. (Returns (list_cache s1), s1))"

definition gdrive_search_files :: "SearchQuery \<Rightarrow> storage \<Rightarrow> FileDataResponse list outcome \<times> storage" where
  "gdrive_search_files query s =
     and_then (get_drive_service s) (\<lambda>_ s1. (Returns (list_cache s1), s1))"

definition search_files :: "adapter \<Rightarrow> SearchQuery \<Rightarrow> storage \<Rightarrow> FileDataResponse list outcome \<times> storage" where
  "search_files a =
     (case a of Local \<Rightarrow> local_search_files | S3 \<Rightarrow> s3_search_files | GDrive \<Rightarrow> gdrive_search_files)"


section \<open>add_file\<close>

text \<open>
  Step 3 (or 4) of every \<^verbatim>\<open>add_file\<close>:
  \<^verbatim>\<open>if ensure_process != "none" and checksum not in self.processing_locks: asyncio.create_task(...)\<close>
\<close>

definition launch :: "checksum \<Rightarrow> ensure_process \<Rightarrow> RawFileData \<Rightarrow> storage \<Rightarrow> storage" where
  "launch c ep raw_data s =
     (if ep \<noteq> P_none \<and> processing_locks s c = None
      then s\<lparr>tasks := tasks s @ [(c, ep, raw_data)]\<rparr>
      else s)"

text \<open>
  \<^verbatim>\<open>add_file\<close> up to \<^verbatim>\<open>await asyncio.sleep(0.1)\<close>.  The result is the checksum and the
  \<^verbatim>\<open>file_data\<close> the response will carry.  \<open>H\<close> is \<^verbatim>\<open>hashlib.sha3_256(...).hexdigest()\<close>.
\<close>

definition local_add_file_start ::
  "(bytes \<Rightarrow> checksum) \<Rightarrow> RawFileData \<Rightarrow> ensure_process \<Rightarrow> storage \<Rightarrow> (checksum \<times> FileData) outcome \<times> storage" where
  "local_add_file_start H raw_data ep s =
     and_then (local_ensure_folder_structure s) (\<lambda>_ s1.
       let checksum = H (content raw_data);
           cache = read_cache s1
       in case map_of cache checksum of
            None \<Rightarrow>
              (let file_path = files_folder @ ''/'' @ checksum @ ''_'' @ raw_name raw_data;
                   s2 = write_object file_path (content raw_data) s1;
                   fd = \<lparr>file_reference = file_path, name = raw_name raw_data,
                         mime_type = raw_mime_type raw_data, fsize = int (length (content raw_data)),
                         modified_time = now s2 @ ''+00:00'', raw_ocr = None, summary = None\<rparr>
               in and_then (local_add_file_data checksum fd s2)
                    (\<lambda>_ s3. (Returns (checksum, fd), launch checksum ep raw_data s3)))
          | Some fd \<Rightarrow> (Returns (checksum, fd), launch checksum ep raw_data s1))"

text \<open>
  The S3 adapter reads size and time back with \<^verbatim>\<open>head_object\<close>: the length of what was
  put, and the time stamp of the medium.
\<close>

definition s3_add_file_start ::
  "(bytes \<Rightarrow> checksum) \<Rightarrow> RawFileData \<Rightarrow> ensure_process \<Rightarrow> storage \<Rightarrow> (checksum \<times> FileData) outcome \<times> storage" where
  "s3_add_file_start H raw_data ep s =
     and_then (s3_ensure_layout s) (\<lambda>_ s1.
       let checksum = H (content raw_data);
           cache = read_cache s1
       in case map_of cache checksum of
            None \<Rightarrow>
              (let key = files_prefix @ checksum @ ''-'' @ raw_name raw_data;
                   s2 = write_object key (content raw_data) s1;
                   fd = \<lparr>file_reference = key, name = raw_name raw_data,
                         mime_type = raw_mime_type raw_data, fsize = int (length (content raw_data)),
                         modified_time = now s2, raw_ocr = None, summary = None\<rparr>
               in and_then (s3_add_file_data checksum fd s2)
                    (\<lambda>_ s3. (Returns (checksum, fd), launch checksum ep raw_data s3)))
          | Some fd \<Rightarrow> (Returns (checksum, fd), launch checksum ep raw_data s1))"

text \<open>
  Drive names the new file itself; \<open>drive_id\<close> stands for the ids it hands out, one per
  created file.  \<^verbatim>\<open>uploaded_file\<close> echoes the name and the MIME type it was given.
\<close>

definition drive_id :: "nat \<Rightarrow> string" where
  "drive_id n = ''drive-file-'' @ str_nat n"

text \<open>\<^verbatim>\<open>.replace('Z', '+00:00')\<close>\<close>

definition replace_Z :: "string \<Rightarrow> string" where
  "replace_Z t = concat (map (\<lambda>ch. if ch = CHR ''Z'' then ''+00:00'' else [ch]) t)"

definition gdrive_add_file_start ::
  "(bytes \<Rightarrow> checksum) \<Rightarrow> RawFileData \<Rightarrow> ensure_process \<Rightarrow> storage \<Rightarrow> (checksum \<times> FileData) outcome \<times> storage" where
  "gdrive_add_file_start H raw_data ep s =
     and_then (get_drive_service s) (\<lambda>_ s1.
       let cache = read_cache s1;
           checksum = H (content raw_data)
       in case map_of cache checksum of
            None \<Rightarrow>
              (let uploaded_id = drive_id (next_id s1);
                   s2 = (write_object uploaded_id (content raw_data) s1)\<lparr>next_id := Suc (next_id s1)\<rparr>;
                   fd = \<lparr>file_reference = uploaded_id, name = raw_name raw_data,
                         mime_type = raw_mime_type raw_data, fsize = int (length (content raw_data)),
                         modified_time = replace_Z (now s2), raw_ocr = None, summary = None\<rparr>
               in and_then (gdrive_add_file_data checksum fd s2)
                    (\<lambda>_ s3. (Returns (checksum, fd), launch checksum ep raw_data s3)))
          | Some fd \<Rightarrow> (Returns (checksum, fd), launch checksum ep raw_data s1))"

definition add_file_start ::
  "adapter \<Rightarrow> (bytes \<Rightarrow> checksum) \<Rightarrow> RawFileData \<Rightarrow> ensure_process \<Rightarrow> storage
     \<Rightarrow> (checksum \<times> FileData) outcome \<times> storage" where
  "add_file_start a =
     (case a of Local \<Rightarrow> local_add_file_start | S3 \<Rightarrow> s3_add_file_start | GDrive \<Rightarrow> gdrive_add_file_start)"

text \<open>
  The whole of \<^verbatim>\<open>add_file\<close>.  During \<^verbatim>\<open>await asyncio.sleep(0.1)\<close> the event loop runs the
  other tasks, the one just created among them: \<open>during_sleep\<close> is what they do to
  the state.  The response takes \<^verbatim>\<open>is_processing\<close> from the locks as they are afterwards.
\<close>

definition add_file ::
  "adapter \<Rightarrow> (bytes \<Rightarrow> checksum) \<Rightarrow> (storage \<Rightarrow> storage) \<Rightarrow> RawFileData \<Rightarrow> ensure_process \<Rightarrow> storage
     \<Rightarrow> FileDataResponse outcome \<times> storage" where
  "add_file a H during_sleep raw_data ep s =
     and_then (add_file_start a H raw_data ep s) (\<lambda>(checksum, fd) s1.
       let s2 = during_sleep s1
       in (Returns \<lparr>r_checksum = checksum, is_processing = locked s2 checksum, file_data = fd\<rparr>, s2))"

section \<open>update_file_data\<close>

text \<open>
  One item of the \<^verbatim>\<open>updates\<close> dict: a field of \<^verbatim>\<open>FileData\<close> with a value of its type, or
  a key for which \<^verbatim>\<open>hasattr\<close> is false.
\<close>

datatype field_update =
    Set_file_reference string
  | Set_name string
  | Set_mime_type string
  | Set_size int
  | Set_modified_time string
  | Set_raw_ocr "string option"
  | Set_summary "string option"
  | Set_other string

fun apply_updates :: "field_update list \<Rightarrow> FileData \<Rightarrow> error + FileData" where
  "apply_updates [] fd = Inr fd"
| "apply_updates (Set_file_reference v # us) fd = apply_updates us (fd\<lparr>file_reference := v\<rparr>)"
| "apply_updates (Set_name v # us) fd = apply_updates us (fd\<lparr>name := v\<rparr>)"
| "apply_updates (Set_mime_type v # us) fd = apply_updates us (fd\<lparr>mime_type := v\<rparr>)"
| "apply_updates (Set_size v # us) fd = apply_updates us (fd\<lparr>fsize := v\<rparr>)"
| "apply_updates (Set_modified_time v # us) fd = apply_updates us (fd\<lparr>modified_time := v\<rparr>)"
| "apply_updates (Set_raw_ocr v # us) fd = apply_updates us (fd\<lparr>raw_ocr := v\<rparr>)"
| "apply_updates (Set_summary v # us) fd = apply_updates us (fd\<lparr>summary := v\<rparr>)"
| "apply_updates (Set_other k # us) fd =
     Inl (ValueError (''Invalid attribute '' @ quote k @ '' for FileData.''))"

text \<open>The \<^verbatim>\<open>async with self.file_cache as db\<close> block the three adapters share.\<close>

definition update_in_cache :: "checksum \<Rightarrow> field_update list \<Rightarrow> storage \<Rightarrow> unit outcome \<times> storage" where
  "update_in_cache c updates s =
     (case map_of (file_cache s) c of
        Some fd \<Rightarrow>
          (case apply_updates updates fd of
             Inl e \<Rightarrow> (Raises e, s)
           | Inr fd' \<Rightarrow> (Returns (), cache_write (AList.update c fd') s))
      | None \<Rightarrow> (Raises (ValueError (no_file_msg c)), s))"

definition local_update_file_data :: "checksum \<Rightarrow> field_update list \<Rightarrow> storage \<Rightarrow> unit outcome \<times> storage" where
  "local_update_file_data c updates s =
     and_then (update_in_cache c updates s) (\<lambda>_ s1. local_save_metadata s1)"

definition s3_update_file_data :: "checksum \<Rightarrow> field_update list \<Rightarrow> storage \<Rightarrow> unit outcome \<times> storage" where
  "s3_update_file_data c updates s =
     and_then (s3_ensure_layout s) (\<lambda>_ s1.
       and_then (update_in_cache c updates s1) (\<lambda>_ s2. s3_push_cache s2))"

text \<open>
  The Drive adapter reads the cache first and asks for the service afterwards; the
  document it writes is the cache as read.
\<close>

definition gdrive_update_file_data :: "checksum \<Rightarrow> field_update list \<Rightarrow> storage \<Rightarrow> unit outcome \<times> storage" where
  "gdrive_update_file_data c updates s =
     and_then (update_in_cache c updates s) (\<lambda>_ s1.
       let cache = read_cache s1
       in and_then (get_drive_service s1) (\<lambda>_ s2. gdrive_update_metadata cache s2))"

definition update_file_data :: "adapter \<Rightarrow> checksum \<Rightarrow> field_update list \<Rightarrow> storage \<Rightarrow> unit outcome \<times> storage" where
  "update_file_data a =
     (case a of Local \<Rightarrow> local_update_file_data | S3 \<Rightarrow> s3_update_file_data | GDrive \<Rightarrow> gdrive_update_file_data)"

section \<open>The upload endpoint (main.py)\<close>

record UploadFile =
  file_bytes :: bytes
  filename :: "string option"
  content_type :: "string option"
  file_size :: "nat option"

definition falsy_str :: "string option \<Rightarrow> bool" where
  "falsy_str x = (x = None \<or> x = Some [])"

definition falsy_nat :: "nat option \<Rightarrow> bool" where
  "falsy_nat x = (x = None \<or> x = Some 0)"

text \<open>The body of the \<^verbatim>\<open>try\<close> block of \<^verbatim>\<open>upload_file\<close>.\<close>

definition upload_file_try ::
  "adapter \<Rightarrow> (bytes \<Rightarrow> checksum) \<Rightarrow> (storage \<Rightarrow> storage) \<Rightarrow> UploadFile \<Rightarrow> ensure_process \<Rightarrow> storage
     \<Rightarrow> FileDataResponse outcome \<times> storage" where
  "upload_file_try storage_interface H during_sleep file ep s =
     (let file_content = file_bytes file;
          file_name = (if falsy_str (filename file) then ''uploaded_file'' else the (filename file))
      in if falsy_str (content_type file)
         then (Raises (HTTPException 400 ''File content type is missing.''), s)
         else if falsy_nat (file_size file)
         then (Raises (HTTPException 400 ''File size is missing.''), s)
         else if the (file_size file) > 5 * 1024 * 1024
         then (Raises (HTTPException 400 ''File too large. Maximum allowed size is 5MB.''), s)
         else if the (content_type file) \<noteq> ''application/pdf''
                 \<and> \<not> startswith (the (content_type file)) ''image/''
         then (Raises (HTTPException 400
                 (''Invalid file type: '' @ the (content_type file) @ ''. ''
                  @ ''Only PDF and common image types (JPEG, PNG, GIF) are allowed.'')), s)
         else add_file storage_interface H during_sleep
                \<lparr>content = file_content, raw_name = file_name, raw_mime_type = the (content_type file)\<rparr>
                ep s)"

text \<open>
  \<^verbatim>\<open>except Exception as e: raise fastapi.HTTPException(status_code=500, ...)\<close> around that
  body; \<^verbatim>\<open>HTTPException\<close> is a subclass of \<^verbatim>\<open>Exception\<close>.
\<close>

definition upload_file ::
  "adapter \<Rightarrow> (bytes \<Rightarrow> checksum) \<Rightarrow> (storage \<Rightarrow> storage) \<Rightarrow> UploadFile \<Rightarrow> ensure_process \<Rightarrow> storage
     \<Rightarrow> FileDataResponse outcome \<times> storage" where
  "upload_file storage_interface H during_sleep file ep s =
     (case upload_file_try storage_interface H during_sleep file ep s of
        (Raises e, s') \<Rightarrow> (Raises (HTTPException 500 (''File upload failed: '' @ str_error e)), s')
      | r \<Rightarrow> r)"

text \<open>
  The status code of the HTTP response: 200 for a returned value, the code of an
  \<^verbatim>\<open>HTTPException\<close>, 500 for any other exception; no response while the call waits.
\<close>

definition status_code :: "'a outcome \<Rightarrow> nat option" where
  "status_code r =
     (case r of
        Returns x \<Rightarrow> Some 200
      | Raises (HTTPException sc d) \<Rightarrow> Some sc
      | Raises e \<Rightarrow> Some 500
      | Blocked \<Rightarrow> None)"


section \<open>Example inputs\<close>

definition example_fd :: FileData where
  "example_fd = \<lparr>file_reference = ''ref1'', name = ''a.pdf'', mime_type = ''application/pdf'',
     fsize = 3, modified_time = ''t0'', raw_ocr = None, summary = None\<rparr>"

text \<open>An adapter after its initialisation, with one stored file.\<close>

definition example_state :: storage where
  "example_state = \<lparr>file_cache = [(''c1'', example_fd)], processing_locks = Map.empty,
     initialized = True, layout_lock = False,
     metadata_doc = Some (Json (model_dump_json [(''c1'', example_fd)])),
     layout_exists = True, objects = [(''ref1'', ''abc'')], now = ''t1'', next_id = 0,
     tasks = [], log = []\<rparr>"

definition example_query :: SearchQuery where
  "example_query = \<lparr>max_results = 10, query_keywords = [], last_modified_since = None,
     last_modified_before = None, around_date = None\<rparr>"

definition narrow_query :: SearchQuery where
  "narrow_query = \<lparr>max_results = 0, query_keywords = [''invoice''],
     last_modified_since = Some ''2030-01-01'', last_modified_before = None, around_date = None\<rparr>"

text \<open>Ten bytes of plain text, as a multipart upload.\<close>

definition text_upload :: UploadFile where
  "text_upload = \<lparr>file_bytes = ''0123456789'', filename = Some ''note.txt'',
     content_type = Some ''text/plain'', file_size = Some 10\<rparr>"

text \<open>A PDF of three bytes, and an OCR service that is down.\<close>

definition example_raw :: RawFileData where
  "example_raw = \<lparr>content = ''abc'', raw_name = ''a.pdf'', raw_mime_type = ''application/pdf''\<rparr>"

definition failing_ocr :: collaborators where
  "failing_ocr = \<lparr>process_document = (\<lambda>b m. Inl (CollaboratorError ''ocr service down'')),
     summarize_document = (\<lambda>t. Inr t)\<rparr>"

text \<open>In the examples \<open>example_hash\<close> stands for SHA3-256: it sends the three bytes to ''c1''.\<close>

definition example_hash :: "bytes \<Rightarrow> checksum" where
  "example_hash b = (if b = ''abc'' then ''c1'' else ''c-'' @ b)"

text \<open>
  The stored file after a finished OCR: the text is there, the summary is not, and the
  lock of the checksum exists and is free.
\<close>

definition ocr_done_fd :: FileData where
  "ocr_done_fd = example_fd\<lparr>raw_ocr := Some ''text of the file''\<rparr>"

definition idle_state :: storage where
  "idle_state = example_state\<lparr>file_cache := [(''c1'', ocr_done_fd)],
     processing_locks := [''c1'' \<mapsto> False],
     metadata_doc := Some (Json (model_dump_json [(''c1'', ocr_done_fd)]))\<rparr>"

text \<open>The same adapter in a new process, initialised: the lock table is empty again.\<close>

definition restarted_state :: storage where
  "restarted_state = idle_state\<lparr>processing_locks := Map.empty\<rparr>"

text \<open>The stored PDF with both fields derived, and a plain text upload.\<close>

definition complete_fd :: FileData where
  "complete_fd = example_fd\<lparr>raw_ocr := Some ''text of the file'', summary := Some ''short''\<rparr>"

definition complete_state :: storage where
  "complete_state = example_state\<lparr>file_cache := [(''c1'', complete_fd)]\<rparr>"

definition plain_text_file :: RawFileData where
  "plain_text_file = \<lparr>content = ''abc'', raw_name = ''a.txt'', raw_mime_type = ''text/plain''\<rparr>"

text \<open>
  An adapter that has not run its initialisation: the local cache file holds an entry
  from an earlier run, and the medium has no metadata document, one that is not JSON,
  or one of zero bytes.
\<close>

definition fresh_state :: storage where
  "fresh_state = \<lparr>file_cache = [(''c1'', example_fd)], processing_locks = Map.empty,
     initialized = False, layout_lock = False, metadata_doc = None,
     layout_exists = False, objects = [], now = ''t1'', next_id = 0,
     tasks = [], log = []\<rparr>"

definition garbled_state :: storage where
  "garbled_state = fresh_state\<lparr>metadata_doc := Some Not_json\<rparr>"

definition zero_length_state :: storage where
  "zero_length_state = fresh_state\<lparr>metadata_doc := Some Empty_body\<rparr>"

section \<open>Agreement of the cache and the remote document\<close>

text \<open>
  \<open>synced\<close>: the remote document is the serialisation of the whole cache.
  \<open>published_after_mutation s s'\<close>: the last two effects between \<open>s\<close> and \<open>s'\<close> are a
  write to the cache followed by the write of that serialisation to the medium.
\<close>

definition synced :: "storage \<Rightarrow> bool" where
  "synced s = (metadata_doc s = Some (Json (model_dump_json (file_cache s))))"

definition new_events :: "storage \<Rightarrow> storage \<Rightarrow> event list" where
  "new_events s s' = drop (length (log s)) (log s')"

definition published_after_mutation :: "storage \<Rightarrow> storage \<Rightarrow> bool" where
  "published_after_mutation s s' =
     (let ev = new_events s s'
      in 2 \<le> length ev \<and>
         drop (length ev - 2) ev = [Cache_write, Remote_write (Json (model_dump_json (file_cache s')))])"

section \<open>Counting uploads\<close>

text \<open>
  \<open>uploads\<close> counts the objects put on the medium so far.  \<open>keeps_files\<close> describes
  what runs between two calls on an initialised adapter (the background derivation
  among it): it leaves the adapter initialised and leaves every cache entry in place,
  with its reference and its name; the derived fields may change.
\<close>

fun is_upload :: "event \<Rightarrow> bool" where
  "is_upload (Object_put r) = True"
| "is_upload _ = False"

definition uploads :: "storage \<Rightarrow> nat" where
  "uploads s = length (filter is_upload (log s))"


text \<open>
  What the event loop does with the tasks \<open>add_file\<close> has created, when each runs to
  its end during the \<^verbatim>\<open>sleep\<close>: the calls of \<open>ensure_ocr\<close> in the order of their creation,
  each with the raw file it was given.  \<open>working_ocr\<close> is an OCR service that answers.
\<close>

definition run_pending :: "adapter \<Rightarrow> collaborators \<Rightarrow> storage \<Rightarrow> storage" where
  "run_pending a co s =
     fold (\<lambda>(c, ep, raw_data) t. snd (ensure_ocr a co c ep (Some raw_data) t)) (tasks s) (s\<lparr>tasks := []\<rparr>)"

definition working_ocr :: collaborators where
  "working_ocr = \<lparr>process_document = (\<lambda>b m. Inr ''text of the file''),
     summarize_document = (\<lambda>t. Inr ''short'')\<rparr>"

text \<open>
  An initialised adapter with no file, the same bytes under a second name, and, for the
  local adapter, the state after the first upload.
\<close>

definition empty_state :: storage where
  "empty_state = \<lparr>file_cache = [], processing_locks = Map.empty,
     initialized = True, layout_lock = False,
     metadata_doc = Some (Json empty_document),
     layout_exists = True, objects = [], now = ''t1'', next_id = 0,
     tasks = [], log = []\<rparr>"


definition first_fd :: FileData where
  "first_fd = \<lparr>file_reference = ''data/local_storage/files/c1_a.pdf'', name = ''a.pdf'',
     mime_type = ''application/pdf'', fsize = 3, modified_time = ''t1+00:00'',
     raw_ocr = None, summary = None\<rparr>"

definition after_first :: storage where
  "after_first = empty_state\<lparr>file_cache := [(''c1'', first_fd)],
     metadata_doc := Some (Json (model_dump_json [(''c1'', first_fd)])),
     objects := [(''data/local_storage/files/c1_a.pdf'', ''abc'')],
     log := [Object_put ''data/local_storage/files/c1_a.pdf'', Cache_write,
             Remote_write (Json (model_dump_json [(''c1'', first_fd)]))]\<rparr>"

section \<open>Concurrent first calls of the initialisation\<close>

text \<open>
  The event loop runs one task at a time and changes task only at an \<^verbatim>\<open>await\<close> that
  suspends.  A call of the initialisation is at its start, waiting for the layout lock,
  suspended inside the body, or finished with its outcome.
\<close>

datatype pc = At_start | Waiting | In_body | Finished "unit outcome"

text \<open>
  One scheduled piece of \<^verbatim>\<open>LocalStorageInterface._ensure_folder_structure\<close>.  The test of
  \<^verbatim>\<open>_folder_initialized\<close> is followed by \<^verbatim>\<open>await asyncio.to_thread(os.makedirs, ...)\<close>,
  where the task is suspended before the body has had any effect; the rest of the body,
  up to the setting of the flag, is taken as one piece.  The adapter has no lock.
\<close>

definition local_init_step :: "pc \<Rightarrow> storage \<Rightarrow> pc \<times> storage" where
  "local_init_step p s =
     (case p of
        At_start \<Rightarrow> (if initialized s then (Finished (Returns ()), s) else (In_body, s))
      | In_body \<Rightarrow>
          (case local_init_body s of
             (Returns u, s') \<Rightarrow> (Finished (Returns ()), s'\<lparr>initialized := True\<rparr>)
           | (r, s') \<Rightarrow> (Finished r, s'))
      | Waiting \<Rightarrow> (Waiting, s)
      | Finished r \<Rightarrow> (Finished r, s))"

text \<open>
  \<^verbatim>\<open>async with self._layout_lock\<close> followed by the second test of the flag: a held lock
  makes the task wait; a free lock is taken at once, and the task is next suspended
  in \<^verbatim>\<open>await client.get_object(...)\<close> while it holds the lock.
\<close>

definition s3_enter_lock :: "storage \<Rightarrow> pc \<times> storage" where
  "s3_enter_lock s =
     (if layout_lock s then (Waiting, s)
      else if initialized s then (Finished (Returns ()), s)
      else (In_body, s\<lparr>layout_lock := True\<rparr>))"

definition s3_init_step :: "pc \<Rightarrow> storage \<Rightarrow> pc \<times> storage" where
  "s3_init_step p s =
     (case p of
        At_start \<Rightarrow> (if initialized s then (Finished (Returns ()), s) else s3_enter_lock s)
      | Waiting \<Rightarrow> s3_enter_lock s
      | In_body \<Rightarrow>
          (case s3_init_body s of
             (Returns u, s') \<Rightarrow> (Finished (Returns ()), s'\<lparr>initialized := True, layout_lock := False\<rparr>)
           | (Raises e, s') \<Rightarrow> (Finished (Raises e), s'\<lparr>layout_lock := False\<rparr>)
           | (Blocked, s') \<Rightarrow> (Finished Blocked, s'))
      | Finished r \<Rightarrow> (Finished r, s))"

text \<open>
  A schedule is the list of the tasks the event loop resumes, by their index; each
  resumed task runs one piece.
\<close>

fun run_tasks :: "(pc \<Rightarrow> storage \<Rightarrow> pc \<times> storage) \<Rightarrow> nat list \<Rightarrow> pc list \<times> storage \<Rightarrow> pc list \<times> storage" where
  "run_tasks step [] cfg = cfg"
| "run_tasks step (i # sched) (pcs, s) =
     (if i < length pcs
      then (case step (pcs ! i) s of (p', s') \<Rightarrow> run_tasks step sched (pcs[i := p'], s'))
      else run_tasks step sched (pcs, s))"

text \<open>How often the body of the initialisation has been entered.\<close>

definition init_runs :: "storage \<Rightarrow> nat" where
  "init_runs s = length (filter (\<lambda>e. e = Init_body) (log s))"

section \<open>Properties\<close>

subsection \<open>Sequencing\<close>

lemma and_then_simps [simp]:
  "and_then (Returns x, s) f = f x s"
  "and_then (Raises e, s) f = (Raises e, s)"
  "and_then (Blocked, s) f = (Blocked, s)"
  by (simp_all add: and_then_def)

lemma and_then_Returns:
  "and_then m f = (Returns y, s') \<longleftrightarrow> (\<exists>x s1. m = (Returns x, s1) \<and> f x s1 = (Returns y, s'))"
  by (cases m; cases "fst m") (auto simp: and_then_def)

subsection \<open>search_files\<close>

lemma search_files_same_for_all_queries: "search_files a q1 s = search_files a q2 s"
  by (cases a)
    (simp_all add: search_files_def local_search_files_def s3_search_files_def gdrive_search_files_def)

lemma search_files_lists_cache: "search_files a q s = (Returns r, s') \<Longrightarrow> r = list_cache s'"
  by (cases a)
    (auto simp: search_files_def local_search_files_def s3_search_files_def gdrive_search_files_def
       and_then_Returns)

lemma search_files_example:
  "search_files Local q example_state = (Returns (list_cache example_state), example_state)"
  by (simp add: search_files_def local_search_files_def local_ensure_folder_structure_def
      example_state_def)

lemma search_files_initialized:
  "initialized s \<Longrightarrow> search_files a q s = (Returns (list_cache s), s)"
  by (cases a)
    (simp_all add: search_files_def local_search_files_def s3_search_files_def gdrive_search_files_def
       local_ensure_folder_structure_def s3_ensure_layout_def get_drive_service_def)

lemma search_files_after_bootstrap:
  "bootstrap a s = (Returns (), s0) \<Longrightarrow> search_files a q s = (Returns (list_cache s0), s0)"
  by (cases a)
    (simp_all add: search_files_def local_search_files_def s3_search_files_def gdrive_search_files_def
       bootstrap_def)

lemma s3_bootstrap_fresh_example: "bootstrap S3 fresh_state = (Returns (), 
     fresh_state\<lparr>file_cache := [], initialized := True, metadata_doc := Some (Json empty_document),
        log := [Init_body, Remote_write (Json empty_document), Cache_write]\<rparr>)"
  by (simp add: bootstrap_def s3_ensure_layout_def s3_init_body_def fresh_state_def Let_def
      cache_write_def put_metadata_def)

text \<open>
  Claim C10.  For every adapter, every state and every two queries, \<open>search_files\<close>
  gives the same outcome: the query is never looked at.  On an initialised adapter the
  call returns, and when the initialisation it starts with returns the call returns
  too; what it returns is the whole cache in its order, one response per entry.
\<close>

theorem search_files_ignores_query:
  "search_files a q1 s = search_files a q2 s \<and>
   (\<forall>r s'. search_files a q1 s = (Returns r, s') \<longrightarrow>
      r = list_cache s' \<and> map (\<lambda>x. (r_checksum x, file_data x)) r = file_cache s') \<and>
   (initialized s \<longrightarrow> search_files a q1 s = (Returns (list_cache s), s)) \<and>
   (\<forall>s0. bootstrap a s = (Returns (), s0) \<longrightarrow> search_files a q1 s = (Returns (list_cache s0), s0))"
proof (intro conjI allI impI)
  show "search_files a q1 s = search_files a q2 s"
    by (rule search_files_same_for_all_queries)
next
  fix r s' assume "search_files a q1 s = (Returns r, s')"
  then show "r = list_cache s'" by (rule search_files_lists_cache)
  then show "map (\<lambda>x. (r_checksum x, file_data x)) r = file_cache s'"
    by (simp add: list_cache_def read_cache_def comp_def case_prod_unfold)
next
  assume "initialized s"
  then show "search_files a q1 s = (Returns (list_cache s), s)"
    by (rule search_files_initialized)
next
  fix s0 assume "bootstrap a s = (Returns (), s0)"
  then show "search_files a q1 s = (Returns (list_cache s0), s0)"
    by (rule search_files_after_bootstrap)
qed

theorem search_files_ignores_query_witness:
  "initialized example_state \<and>
   search_files Local example_query example_state = search_files Local narrow_query example_state \<and>
   search_files Local narrow_query example_state = (Returns (list_cache example_state), example_state) \<and>
   search_files S3 narrow_query example_state = (Returns (list_cache example_state), example_state) \<and>
   search_files GDrive narrow_query example_state = (Returns (list_cache example_state), example_state) \<and>
   list_cache example_state = [\<lparr>r_checksum = ''c1'', is_processing = False, file_data = example_fd\<rparr>] \<and>
   map (\<lambda>x. (r_checksum x, file_data x)) (list_cache example_state) = file_cache example_state \<and>
   fst (bootstrap S3 fresh_state) = Returns () \<and>
   fst (search_files S3 narrow_query fresh_state) = Returns []"
proof -
  have i: "initialized example_state" by (simp add: example_state_def)
  have l: "list_cache example_state = [\<lparr>r_checksum = ''c1'', is_processing = False, file_data = example_fd\<rparr>]"
    by (simp add: list_cache_def read_cache_def locked_def example_state_def)
  have a1: "search_files Local example_query example_state = search_files Local narrow_query example_state"
    using search_files_ignores_query [of Local example_query example_state narrow_query] by blast
  have a2: "search_files Local narrow_query example_state = (Returns (list_cache example_state), example_state)"
    using search_files_ignores_query [of Local narrow_query example_state example_query] i by blast
  have a3: "search_files S3 narrow_query example_state = (Returns (list_cache example_state), example_state)"
    using search_files_ignores_query [of S3 narrow_query example_state example_query] i by blast
  have a4: "search_files GDrive narrow_query example_state = (Returns (list_cache example_state), example_state)"
    using search_files_ignores_query [of GDrive narrow_query example_state example_query] i by blast
  have a5: "map (\<lambda>x. (r_checksum x, file_data x)) (list_cache example_state) = file_cache example_state"
    using search_files_ignores_query [of Local narrow_query example_state example_query] a2 by blast
  have a6: "search_files S3 narrow_query fresh_state =
      (Returns (list_cache (fresh_state\<lparr>file_cache := [], initialized := True,
          metadata_doc := Some (Json empty_document),
          log := [Init_body, Remote_write (Json empty_document), Cache_write]\<rparr>)),
       fresh_state\<lparr>file_cache := [], initialized := True, metadata_doc := Some (Json empty_document),
          log := [Init_body, Remote_write (Json empty_document), Cache_write]\<rparr>)"
    using search_files_ignores_query [of S3 narrow_query fresh_state example_query] s3_bootstrap_fresh_example by blast
  have a7: "fst (search_files S3 narrow_query fresh_state) = Returns []"
    by (simp add: a6 list_cache_def read_cache_def)
  show ?thesis
    using i a1 a2 a3 a4 l a5 a7 s3_bootstrap_fresh_example by simp
qed

subsection \<open>The upload endpoint\<close>

text \<open>Every request the checks of \<open>upload_file\<close> refuse is answered with 500.\<close>

lemma upload_file_rejections_are_500:
  "falsy_str (content_type f) \<or> falsy_nat (file_size f) \<or> the (file_size f) > 5 * 1024 * 1024
    \<or> (the (content_type f) \<noteq> ''application/pdf'' \<and> \<not> startswith (the (content_type f)) ''image/'')
   \<Longrightarrow> status_code (fst (upload_file a H env f ep s)) = Some 500"
  by (auto simp: upload_file_def upload_file_try_def status_code_def Let_def)

text \<open>
  Claim C3.  The claim asks for status 400 on a refused upload.  The checks raise
  \<open>HTTPException 400\<close> inside the \<^verbatim>\<open>try\<close> block, and the handler of that block catches
  it with every other exception and raises \<open>HTTPException 500\<close>: the ten-byte plain
  text upload is answered with 500, on every adapter and in every state.
\<close>

theorem upload_text_plain_is_answered_500:
  "status_code (fst (upload_file_try a H env text_upload ep s)) = Some 400 \<and>
   status_code (fst (upload_file a H env text_upload ep s)) = Some 500"
  by (simp add: upload_file_def upload_file_try_def status_code_def text_upload_def falsy_str_def
      falsy_nat_def startswith_def)

subsection \<open>delete_file\<close>

text \<open>
  Claim C1.  The claim holds of the local and the S3 adapter.  On the Drive adapter
  \<open>delete_file\<close> of a stored checksum returns and changes nothing: the entry is still in
  the cache, \<open>get_file_data\<close> still finds it and the object is still stored.
\<close>

theorem gdrive_delete_file_deletes_nothing:
  "delete_file GDrive ''c1'' example_state = (Returns (), example_state) \<and>
   file_exists ''c1'' example_state \<and>
   get_file_data_plain ''c1'' example_state = Returns example_fd \<and>
   map_of (objects example_state) (file_reference example_fd) = Some ''abc''"
  by (simp add: delete_file_def gdrive_delete_file_def get_file_data_plain_def read_cache_def
      file_exists_def example_state_def example_fd_def)

subsection \<open>What the operations leave alone\<close>

lemma cache_write_frame [simp]:
  "processing_locks (cache_write f s) = processing_locks s"
  "tasks (cache_write f s) = tasks s"
  "initialized (cache_write f s) = initialized s"
  "file_cache (cache_write f s) = f (file_cache s)"
  "metadata_doc (cache_write f s) = metadata_doc s"
  "layout_exists (cache_write f s) = layout_exists s"
  "layout_lock (cache_write f s) = layout_lock s"
  "objects (cache_write f s) = objects s"
  "next_id (cache_write f s) = next_id s"
  "now (cache_write f s) = now s"
  "log (cache_write f s) = log s @ [Cache_write]"
  by (simp_all add: cache_write_def)

lemma put_metadata_frame [simp]:
  "processing_locks (put_metadata b s) = processing_locks s"
  "tasks (put_metadata b s) = tasks s"
  "initialized (put_metadata b s) = initialized s"
  "file_cache (put_metadata b s) = file_cache s"
  "metadata_doc (put_metadata b s) = Some b"
  "layout_exists (put_metadata b s) = layout_exists s"
  "layout_lock (put_metadata b s) = layout_lock s"
  "objects (put_metadata b s) = objects s"
  "next_id (put_metadata b s) = next_id s"
  "now (put_metadata b s) = now s"
  "log (put_metadata b s) = log s @ [Remote_write b]"
  by (simp_all add: put_metadata_def)

lemma local_save_metadata_locks:
  "processing_locks (snd (local_save_metadata s)) = processing_locks s"
  by (simp add: local_save_metadata_def Let_def)

lemma local_init_body_locks:
  "processing_locks (snd (local_init_body s)) = processing_locks s"
  by (simp add: local_init_body_def Let_def local_save_metadata_locks split: option.split sum.split)


lemma snd_and_then:
  "snd (and_then m f) = (case fst m of Returns x \<Rightarrow> snd (f x (snd m)) | _ \<Rightarrow> snd m)"
  by (cases m; cases "fst m") (auto simp: and_then_def)

lemma fst_and_then:
  "fst (and_then m f) = (case fst m of Returns x \<Rightarrow> fst (f x (snd m)) | Raises e \<Rightarrow> Raises e | Blocked \<Rightarrow> Blocked)"
  by (cases m; cases "fst m") (auto simp: and_then_def)

lemma local_save_metadata_tasks:
  "tasks (snd (local_save_metadata s)) = tasks s"
  by (simp add: local_save_metadata_def Let_def)

lemma local_init_body_tasks:
  "tasks (snd (local_init_body s)) = tasks s"
  by (simp add: local_init_body_def Let_def local_save_metadata_tasks split: option.split sum.split)

lemma local_ensure_locks:
  "processing_locks (snd (local_ensure_folder_structure s)) = processing_locks s"
  "tasks (snd (local_ensure_folder_structure s)) = tasks s"
  by (simp_all add: local_ensure_folder_structure_def snd_and_then local_init_body_locks
      local_init_body_tasks split: outcome.split)

lemma s3_init_body_locks:
  "processing_locks (snd (s3_init_body s)) = processing_locks s"
  "tasks (snd (s3_init_body s)) = tasks s"
  by (simp_all add: s3_init_body_def Let_def split: option.split sum.split)

lemma s3_ensure_locks:
  "processing_locks (snd (s3_ensure_layout s)) = processing_locks s"
  "tasks (snd (s3_ensure_layout s)) = tasks s"
proof -
  obtain r s2 where b: "s3_init_body (s\<lparr>layout_lock := True\<rparr>) = (r, s2)"
    by (cases "s3_init_body (s\<lparr>layout_lock := True\<rparr>)")
  have "processing_locks s2 = processing_locks s" "tasks s2 = tasks s"
    using s3_init_body_locks [of "s\<lparr>layout_lock := True\<rparr>"] b by simp_all
  then show "processing_locks (snd (s3_ensure_layout s)) = processing_locks s"
    "tasks (snd (s3_ensure_layout s)) = tasks s"
    by (simp_all add: s3_ensure_layout_def Let_def b split: outcome.split)
qed

lemma gdrive_body_locks:
  "processing_locks (snd (gdrive_ensure_folder_structure s)) = processing_locks s"
  "tasks (snd (gdrive_ensure_folder_structure s)) = tasks s"
  by (simp_all add: gdrive_ensure_folder_structure_def Let_def split: option.split sum.split)

lemma get_drive_service_locks:
  "processing_locks (snd (get_drive_service s)) = processing_locks s"
  "tasks (snd (get_drive_service s)) = tasks s"
  by (simp_all add: get_drive_service_def snd_and_then gdrive_body_locks split: outcome.split)

lemma bootstrap_locks:
  "processing_locks (snd (bootstrap a s)) = processing_locks s"
  "tasks (snd (bootstrap a s)) = tasks s"
  by (cases a; simp add: bootstrap_def local_ensure_locks s3_ensure_locks get_drive_service_locks)+

lemma add_file_data_locks:
  "processing_locks (snd (add_file_data a c fd s)) = processing_locks s"
  "tasks (snd (add_file_data a c fd s)) = tasks s"
  by (cases a; simp add: add_file_data_def local_add_file_data_def s3_add_file_data_def
      gdrive_add_file_data_def snd_and_then local_save_metadata_locks local_save_metadata_tasks
      s3_ensure_locks get_drive_service_locks s3_push_cache_def gdrive_update_metadata_def Let_def
      split: outcome.split)+

lemma download_file_locks:
  "processing_locks (snd (download_file a c s)) = processing_locks s"
  by (cases a; simp add: download_file_def local_download_file_def s3_download_file_def
      gdrive_download_file_def snd_and_then s3_ensure_locks get_drive_service_locks
      split: outcome.split option.split)

subsection \<open>The processing lock after a failure\<close>

text \<open>
  Once \<open>ensure_ocr\<close> has found the checksum in the cache, every exception it lets
  through leaves the lock of that checksum held.
\<close>

lemma locked_eqI: "processing_locks s' = processing_locks s \<Longrightarrow> locked s' c = locked s c"
  by (simp add: locked_def)

lemma locked_acquire [simp]: "locked (acquire c s) c"
  by (simp add: locked_def acquire_def)

lemma acquire_cache [simp]: "file_cache (acquire c s) = file_cache s"
  by (simp add: acquire_def)

lemma ensure_ocr_raise_keeps_lock:
  assumes r: "ensure_ocr a co c ep raw s = (Raises e, s')"
    and inc: "map_of (file_cache s) c = Some fd0"
  shows "locked s' c"
proof -
  define s1 where "s1 = (if processing_locks s c = None
                        then s\<lparr>processing_locks := (processing_locks s)(c \<mapsto> False)\<rparr> else s)"
  define s2 where "s2 = acquire c s1"
  have c1: "file_cache s1 = file_cache s" by (simp add: s1_def)
  have g: "get_file_data_plain c s2 = Returns fd0"
    using inc c1 by (simp add: get_file_data_plain_def read_cache_def s2_def)
  have "\<not> (ep = P_ocr \<or> ep = P_summary) \<Longrightarrow> ensure_ocr a co c ep raw s = (Returns (), s)"
    by (simp add: ensure_ocr_def)
  with r have ep: "ep = P_ocr \<or> ep = P_summary" by auto
  have "locked s1 c \<Longrightarrow> ensure_ocr a co c ep raw s = (Blocked, s1)"
    using ep inc by (simp add: ensure_ocr_def read_cache_def s1_def [symmetric] Let_def)
  with r have nl: "\<not> locked s1 c" by auto
  have nothing_to_do: "\<not> (raw_ocr fd0 = None \<or> (ep = P_summary \<and> summary fd0 = None))
      \<Longrightarrow> ensure_ocr a co c ep raw s = (Returns (), release c s2)"
    using ep inc nl g
    by (auto simp: ensure_ocr_def read_cache_def s1_def [symmetric] s2_def [symmetric] Let_def)
  have need: "raw_ocr fd0 = None \<or> (ep = P_summary \<and> summary fd0 = None)"
  proof (rule ccontr)
    assume "\<not> (raw_ocr fd0 = None \<or> (ep = P_summary \<and> summary fd0 = None))"
    from nothing_to_do [OF this] r show False by simp
  qed
  define m where "m = (case raw of None \<Rightarrow> download_file a c s2 | Some r \<Rightarrow> (Returns r, s2))"
  have ml: "processing_locks (snd m) = processing_locks s2"
    by (simp add: m_def download_file_locks split: option.split)
  have eq: "ensure_ocr a co c ep raw s =
      and_then m (\<lambda>raw s3. case derive co ep raw fd0 of
             Inl e \<Rightarrow> (Raises e, s3)
           | Inr fd' \<Rightarrow> and_then (add_file_data a c fd' s3) (\<lambda>_ s4. (Returns (), release c s4)))"
    using ep inc nl g need
    by (simp add: ensure_ocr_def read_cache_def s1_def [symmetric] s2_def [symmetric] m_def Let_def)
  have l2: "locked s2 c" by (simp add: s2_def)
  show ?thesis
  proof (cases m)
    case (Pair r0 s3)
    with ml have l3: "locked s3 c" using l2 locked_eqI [of s3 s2 c] by simp
    show ?thesis
    proof (cases r0)
      case (Returns rw)
      show ?thesis
      proof (cases "derive co ep rw fd0")
        case (Inl e')
        with r eq Pair Returns l3 show ?thesis by simp
      next
        case (Inr fd')
        obtain r4 s4 where a4: "add_file_data a c fd' s3 = (r4, s4)"
          by (cases "add_file_data a c fd' s3")
        have "processing_locks s4 = processing_locks s3"
          using add_file_data_locks(1) [of a c fd' s3] a4 by simp
        then have l4: "locked s4 c" using l3 locked_eqI [of s4 s3 c] by simp
        from r eq Pair Returns Inr a4 l4 show ?thesis
          by (cases r4) simp_all
      qed
    next
      case (Raises e')
      with r eq Pair l3 show ?thesis by simp
    next
      case Blocked
      with r eq Pair show ?thesis by simp
    qed
  qed
qed

text \<open>
  Claim C2.  The first half of the claim holds: the error of the collaborator reaches
  the caller.  The second half fails: \<^verbatim>\<open>release()\<close> is the last statement of
  \<open>ensure_ocr\<close> and no \<^verbatim>\<open>finally\<close> guards it, so after the failed OCR of the stored PDF
  the lock of its checksum is still held, and the next \<open>ensure_ocr\<close> for it waits for
  a release that never comes.
\<close>

theorem ensure_ocr_failure_leaves_lock_held:
  "fst (ensure_ocr Local failing_ocr ''c1'' P_ocr (Some example_raw) example_state)
     = Raises (CollaboratorError ''ocr service down'') \<and>
   locked (snd (ensure_ocr Local failing_ocr ''c1'' P_ocr (Some example_raw) example_state)) ''c1'' \<and>
   fst (ensure_ocr Local failing_ocr ''c1'' P_ocr (Some example_raw)
         (snd (ensure_ocr Local failing_ocr ''c1'' P_ocr (Some example_raw) example_state))) = Blocked"
  by (simp add: ensure_ocr_def example_state_def example_fd_def example_raw_def failing_ocr_def
      read_cache_def locked_def acquire_def get_file_data_plain_def derive_def Let_def)

subsection \<open>Scheduling the pipeline from add_file\<close>

lemma write_object_frame [simp]:
  "processing_locks (write_object r b s) = processing_locks s"
  "tasks (write_object r b s) = tasks s"
  "initialized (write_object r b s) = initialized s"
  "file_cache (write_object r b s) = file_cache s"
  "metadata_doc (write_object r b s) = metadata_doc s"
  "layout_exists (write_object r b s) = layout_exists s"
  "layout_lock (write_object r b s) = layout_lock s"
  "next_id (write_object r b s) = next_id s"
  "now (write_object r b s) = now s"
  "log (write_object r b s) = log s @ [Object_put r]"
  by (simp_all add: write_object_def)

lemma launch_tasks:
  "tasks (launch c ep raw s) =
     (if ep \<noteq> P_none \<and> processing_locks s c = None then tasks s @ [(c, ep, raw)] else tasks s)"
  by (simp add: launch_def)


lemma local_add_file_data_locks:
  "processing_locks (snd (local_add_file_data c fd s)) = processing_locks s"
  "tasks (snd (local_add_file_data c fd s)) = tasks s"
  using add_file_data_locks [of Local c fd s] by (simp_all add: add_file_data_def)

lemma s3_add_file_data_locks:
  "processing_locks (snd (s3_add_file_data c fd s)) = processing_locks s"
  "tasks (snd (s3_add_file_data c fd s)) = tasks s"
  using add_file_data_locks [of S3 c fd s] by (simp_all add: add_file_data_def)

lemma gdrive_add_file_data_locks:
  "processing_locks (snd (gdrive_add_file_data c fd s)) = processing_locks s"
  "tasks (snd (gdrive_add_file_data c fd s)) = tasks s"
  using add_file_data_locks [of GDrive c fd s] by (simp_all add: add_file_data_def)

lemma local_start_tasks:
  "fst (local_add_file_start H raw ep s) = Returns p \<Longrightarrow>
   tasks (snd (local_add_file_start H raw ep s)) =
     (if ep \<noteq> P_none \<and> processing_locks s (H (content raw)) = None
      then tasks s @ [(H (content raw), ep, raw)] else tasks s)"
  by (simp add: local_add_file_start_def Let_def snd_and_then fst_and_then launch_tasks
      local_ensure_locks local_add_file_data_locks split: outcome.splits option.splits)

lemma s3_start_tasks:
  "fst (s3_add_file_start H raw ep s) = Returns p \<Longrightarrow>
   tasks (snd (s3_add_file_start H raw ep s)) =
     (if ep \<noteq> P_none \<and> processing_locks s (H (content raw)) = None
      then tasks s @ [(H (content raw), ep, raw)] else tasks s)"
  by (simp add: s3_add_file_start_def Let_def snd_and_then fst_and_then launch_tasks
      s3_ensure_locks s3_add_file_data_locks split: outcome.splits option.splits)

lemma gdrive_start_tasks:
  "fst (gdrive_add_file_start H raw ep s) = Returns p \<Longrightarrow>
   tasks (snd (gdrive_add_file_start H raw ep s)) =
     (if ep \<noteq> P_none \<and> processing_locks s (H (content raw)) = None
      then tasks s @ [(H (content raw), ep, raw)] else tasks s)"
  by (simp add: gdrive_add_file_start_def Let_def snd_and_then fst_and_then launch_tasks
      get_drive_service_locks gdrive_add_file_data_locks split: outcome.splits option.splits)

lemma add_file_start_example: "add_file_start Local example_hash example_raw P_ocr example_state =
     (Returns (''c1'', example_fd), example_state\<lparr>tasks := [(''c1'', P_ocr, example_raw)]\<rparr>)"
  by (simp add: add_file_start_def local_add_file_start_def local_ensure_folder_structure_def
      example_state_def example_hash_def example_raw_def example_fd_def
      read_cache_def launch_def Let_def)

text \<open>
  What the guard of \<^verbatim>\<open>create_task\<close> does.  For every adapter, an \<open>add_file\<close> with
  \<^verbatim>\<open>ensure_process\<close> other than "none" that gets as far as its response creates the
  background task exactly when the lock table has no entry for the checksum, whether a
  lock that exists is held or free.
\<close>

theorem add_file_schedules_iff_no_lock_entry:
  assumes "add_file_start a H raw ep s = (Returns p, s')" and "ep \<noteq> P_none"
  shows "(processing_locks s (H (content raw)) = None \<longrightarrow> tasks s' = tasks s @ [(H (content raw), ep, raw)])
       \<and> (processing_locks s (H (content raw)) \<noteq> None \<longrightarrow> tasks s' = tasks s)"
proof -
  have "fst (add_file_start a H raw ep s) = Returns p" "snd (add_file_start a H raw ep s) = s'"
    using assms(1) by simp_all
  then have "tasks s' = (if ep \<noteq> P_none \<and> processing_locks s (H (content raw)) = None
      then tasks s @ [(H (content raw), ep, raw)] else tasks s)"
    using local_start_tasks [of H raw ep s p] s3_start_tasks [of H raw ep s p]
      gdrive_start_tasks [of H raw ep s p]
    by (cases a) (simp_all add: add_file_start_def)
  with assms(2) show ?thesis by simp
qed

theorem add_file_schedules_iff_no_lock_entry_witness:
  "add_file_start Local example_hash example_raw P_ocr example_state =
     (Returns (''c1'', example_fd), example_state\<lparr>tasks := [(''c1'', P_ocr, example_raw)]\<rparr>) \<and>
   P_ocr \<noteq> P_none \<and>
   processing_locks example_state (example_hash (content example_raw)) = None \<and>
   tasks (example_state\<lparr>tasks := [(''c1'', P_ocr, example_raw)]\<rparr>) =
     tasks example_state @ [(example_hash (content example_raw), P_ocr, example_raw)]"
  using add_file_schedules_iff_no_lock_entry [OF add_file_start_example] add_file_start_example
  by (simp add: example_state_def example_hash_def example_raw_def)

text \<open>
  Claim C6.  The claim asks for the pipeline to be scheduled whenever no lock is held
  for the checksum, and the comments of the step (\<^verbatim>\<open>Perform OCR and/or summary if needed\<close>,
  \<^verbatim>\<open>Launch processing in background if requested\<close>) say the same.  The guard tests
  \<^verbatim>\<open>checksum not in self.processing_locks\<close>, whereas two lines further the response tests
  \<^verbatim>\<open>.locked()\<close>.  So after a finished OCR, when the lock of ''c1'' exists and is free, the
  summary is unset and the summary level is asked for, \<open>add_file\<close> returns and creates
  no task, on each of the three adapters: the requested summary is never derived by
  this call.
\<close>

theorem add_file_idle_lock_not_scheduled:
  "\<not> locked idle_state (example_hash (content example_raw)) \<and>
   summary ocr_done_fd = None \<and>
   add_file_start Local example_hash example_raw P_summary idle_state =
     (Returns (''c1'', ocr_done_fd), idle_state) \<and>
   add_file_start S3 example_hash example_raw P_summary idle_state =
     (Returns (''c1'', ocr_done_fd), idle_state) \<and>
   add_file_start GDrive example_hash example_raw P_summary idle_state =
     (Returns (''c1'', ocr_done_fd), idle_state) \<and>
   tasks idle_state = []"
  by (simp add: add_file_start_def local_add_file_start_def local_ensure_folder_structure_def
      s3_add_file_start_def s3_ensure_layout_def gdrive_add_file_start_def get_drive_service_def
      idle_state_def example_state_def example_hash_def example_raw_def ocr_done_fd_def example_fd_def
      read_cache_def launch_def locked_def Let_def)

subsection \<open>Derivation and the two derived fields\<close>

lemma derive_keeps_order:
  assumes "derive co ep raw fd = Inr fd'" and "summary fd \<noteq> None \<longrightarrow> raw_ocr fd \<noteq> None"
  shows "summary fd' \<noteq> None \<longrightarrow> raw_ocr fd' \<noteq> None"
  using assms
  by (auto simp: derive_def Let_def split: if_splits sum.splits option.splits)

lemma bootstrap_initialized: "initialized s \<Longrightarrow> bootstrap a s = (Returns (), s)"
  by (cases a) (simp_all add: bootstrap_def local_ensure_folder_structure_def s3_ensure_layout_def
      get_drive_service_def)

lemma download_file_cache:
  "initialized s \<Longrightarrow> snd (download_file a c s) = s"
  by (cases a; simp add: download_file_def local_download_file_def s3_download_file_def
      gdrive_download_file_def s3_ensure_layout_def get_drive_service_def
      split: outcome.split option.split)

lemma local_save_metadata_cache:
  "file_cache (snd (local_save_metadata s)) = file_cache s"
  by (simp add: local_save_metadata_def Let_def)

lemma add_file_data_cache:
  "initialized s \<Longrightarrow> file_cache (snd (add_file_data a c fd s)) = AList.update c fd (file_cache s)"
  by (cases a; simp add: add_file_data_def local_add_file_data_def s3_add_file_data_def
      gdrive_add_file_data_def s3_ensure_layout_def get_drive_service_def s3_push_cache_def
      gdrive_update_metadata_def local_save_metadata_cache Let_def)

lemma release_cache [simp]: "file_cache (release c s) = file_cache s"
  by (simp add: release_def)

lemma acquire_initialized [simp]: "initialized (acquire c s) = initialized s"
  by (simp add: acquire_def)

text \<open>The shape of ensure_ocr once the checksum is found.\<close>

lemma ensure_ocr_found:
  assumes inc: "map_of (file_cache s) c = Some fd0" and ep: "ep \<noteq> P_none"
  shows "ensure_ocr a co c ep raw s =
     (let s1 = (if processing_locks s c = None
                then s\<lparr>processing_locks := (processing_locks s)(c \<mapsto> False)\<rparr> else s)
      in if locked s1 c then (Blocked, s1)
         else if raw_ocr fd0 = None \<or> (ep = P_summary \<and> summary fd0 = None)
         then and_then
                (case raw of None \<Rightarrow> download_file a c (acquire c s1)
                 | Some r \<Rightarrow> (Returns r, acquire c s1))
                (\<lambda>raw s3.
                   case derive co ep raw fd0 of
                     Inl e \<Rightarrow> (Raises e, s3)
                   | Inr fd' \<Rightarrow>
                       and_then (add_file_data a c fd' s3) (\<lambda>_ s4. (Returns (), release c s4)))
         else (Returns (), release c (acquire c s1)))"
proof -
  have e: "ep = P_ocr \<or> ep = P_summary" using ep by (cases ep) simp_all
  have g: "\<And>s1. file_cache s1 = file_cache s \<Longrightarrow> get_file_data_plain c (acquire c s1) = Returns fd0"
    using inc by (simp add: get_file_data_plain_def read_cache_def)
  show ?thesis
    using e inc by (auto simp: ensure_ocr_def read_cache_def Let_def g)
qed

lemma ensure_ocr_complete_unchanged:
  assumes inc: "map_of (file_cache s) c = Some fd" and both: "raw_ocr fd \<noteq> None" "summary fd \<noteq> None"
  shows "file_cache (snd (ensure_ocr a co c ep raw s)) = file_cache s"
proof (cases "ep = P_none")
  case True
  then show ?thesis by (simp add: ensure_ocr_def)
next
  case False
  show ?thesis
    using both by (auto simp: ensure_ocr_found [OF inc False] Let_def)
qed

lemma ensure_ocr_keeps_order:
  assumes inc: "map_of (file_cache s) c = Some fd" and init: "initialized s"
    and ok: "summary fd \<noteq> None \<longrightarrow> raw_ocr fd \<noteq> None"
    and after: "map_of (file_cache (snd (ensure_ocr a co c ep raw s))) c = Some fd'"
  shows "summary fd' \<noteq> None \<longrightarrow> raw_ocr fd' \<noteq> None"
proof (cases "ep = P_none")
  case True
  with after inc ok show ?thesis by (simp add: ensure_ocr_def)
next
  case False
  define s1 where "s1 = (if processing_locks s c = None
                then s\<lparr>processing_locks := (processing_locks s)(c \<mapsto> False)\<rparr> else s)"
  define s2 where "s2 = acquire c s1"
  have c2: "file_cache s2 = file_cache s" "initialized s2" "file_cache s1 = file_cache s"
    using init by (simp_all add: s1_def s2_def)
  define need where "need = (raw_ocr fd = None \<or> (ep = P_summary \<and> summary fd = None))"
  define m where "m = (case raw of None \<Rightarrow> download_file a c s2 | Some r \<Rightarrow> (Returns r, s2))"
  have ms: "snd m = s2"
    using c2 by (simp add: m_def download_file_cache split: option.split)
  have eq: "ensure_ocr a co c ep raw s =
     (if locked s1 c then (Blocked, s1)
      else if need
           then and_then m (\<lambda>raw s3.
                   case derive co ep raw fd of
                     Inl e \<Rightarrow> (Raises e, s3)
                   | Inr fd' \<Rightarrow>
                       and_then (add_file_data a c fd' s3) (\<lambda>_ s4. (Returns (), release c s4)))
           else (Returns (), release c s2))"
    unfolding ensure_ocr_found [OF inc False] Let_def s1_def [symmetric] need_def m_def s2_def
    by simp
  show ?thesis
  proof (cases "locked s1 c \<or> \<not> need")
    case True
    then have "file_cache (snd (ensure_ocr a co c ep raw s)) = file_cache s"
      using c2 by (auto simp: eq)
    with after inc ok show ?thesis by simp
  next
    case False
    obtain r0 where m0: "m = (r0, s2)" using ms by (cases m) simp
    show ?thesis
    proof (cases r0)
      case (Returns rw)
      show ?thesis
      proof (cases "derive co ep rw fd")
        case (Inl e)
        with False m0 Returns have "snd (ensure_ocr a co c ep raw s) = s2" by (simp add: eq)
        with after inc ok c2 show ?thesis by simp
      next
        case (Inr fd1)
        obtain r4 s4 where a4: "add_file_data a c fd1 s2 = (r4, s4)"
          by (cases "add_file_data a c fd1 s2")
        have c4: "file_cache s4 = AList.update c fd1 (file_cache s2)"
          using add_file_data_cache [OF c2(2), of a c fd1] a4 by simp
        have "file_cache (snd (ensure_ocr a co c ep raw s)) = file_cache s4"
          using False m0 Returns Inr a4 by (cases r4) (simp_all add: eq)
        with after c4 have "fd' = fd1" by (simp add: update_conv')
        with derive_keeps_order [OF Inr ok] show ?thesis by simp
      qed
    next
      case (Raises e)
      with False m0 have "snd (ensure_ocr a co c ep raw s) = s2" by (simp add: eq)
      with after inc ok c2 show ?thesis by simp
    next
      case Blocked
      with False m0 have "snd (ensure_ocr a co c ep raw s) = s2" by (simp add: eq)
      with after inc ok c2 show ?thesis by simp
    qed
  qed
qed

lemma ensure_ocr_complete_example:
  "ensure_ocr Local failing_ocr ''c1'' P_summary (Some plain_text_file) complete_state =
     (Returns (), complete_state\<lparr>processing_locks := [''c1'' \<mapsto> False]\<rparr>)"
  by (simp add: ensure_ocr_def complete_state_def example_state_def complete_fd_def example_fd_def
      read_cache_def locked_def acquire_def release_def get_file_data_plain_def Let_def)

text \<open>
  \<open>ensure_ocr\<close> tests the fields with \<^verbatim>\<open>is None\<close>, so "non-empty" is read as "set".
  For every adapter, level, raw file and state: when both \<open>raw_ocr\<close> and \<open>summary\<close> of
  the checksum are set, a derivation call leaves the whole cache as it is, however it
  ends; and on an initialised adapter, when the entry has its summary set only if its
  OCR text is set, the entry has that property after the call as well.  An entry made
  by \<open>add_file\<close> has both fields unset, so every entry that only derivation has touched
  has its OCR text set whenever its summary is.
\<close>

theorem derivation_keeps_complete_metadata:
  assumes "map_of (file_cache s) c = Some fd" and "ensure_ocr a co c ep raw s = (r, s')"
  shows "(raw_ocr fd \<noteq> None \<and> summary fd \<noteq> None \<longrightarrow> file_cache s' = file_cache s) \<and>
         (initialized s \<and> (summary fd \<noteq> None \<longrightarrow> raw_ocr fd \<noteq> None) \<longrightarrow>
            (\<forall>fd'. map_of (file_cache s') c = Some fd' \<longrightarrow> (summary fd' \<noteq> None \<longrightarrow> raw_ocr fd' \<noteq> None)))"
proof -
  have s': "snd (ensure_ocr a co c ep raw s) = s'" using assms(2) by simp
  show ?thesis
    using ensure_ocr_complete_unchanged [OF assms(1), of a co ep raw]
      ensure_ocr_keeps_order [OF assms(1), of a co ep raw]
    unfolding s' by blast
qed

theorem derivation_keeps_complete_metadata_witness:
  "map_of (file_cache complete_state) ''c1'' = Some complete_fd \<and>
   ensure_ocr Local failing_ocr ''c1'' P_summary (Some plain_text_file) complete_state =
     (Returns (), complete_state\<lparr>processing_locks := [''c1'' \<mapsto> False]\<rparr>) \<and>
   raw_ocr complete_fd \<noteq> None \<and> summary complete_fd \<noteq> None \<and> initialized complete_state \<and>
   file_cache (complete_state\<lparr>processing_locks := [''c1'' \<mapsto> False]\<rparr>) = file_cache complete_state \<and>
   map_of (file_cache (complete_state\<lparr>processing_locks := [''c1'' \<mapsto> False]\<rparr>)) ''c1'' = Some complete_fd"
  using derivation_keeps_complete_metadata [OF _ ensure_ocr_complete_example, of complete_fd]
    ensure_ocr_complete_example
  by (simp add: complete_state_def complete_fd_def example_state_def example_fd_def)

subsection \<open>Bootstrap\<close>

lemma model_dump_json_empty: "model_dump_json [] = empty_document"
  by (simp add: model_dump_json_def empty_document_def)

lemma local_absent:
  "\<not> initialized s \<Longrightarrow> metadata_doc s = None \<Longrightarrow>
   fst (local_ensure_folder_structure s) = Returns () \<and>
   file_cache (snd (local_ensure_folder_structure s)) = [] \<and>
   metadata_doc (snd (local_ensure_folder_structure s)) = Some (Json empty_document)"
  by (simp add: local_ensure_folder_structure_def local_init_body_def local_save_metadata_def
      Let_def read_cache_def model_dump_json_empty)

lemma s3_absent:
  "\<not> initialized s \<Longrightarrow> \<not> layout_lock s \<Longrightarrow> metadata_doc s = None \<Longrightarrow>
   fst (s3_ensure_layout s) = Returns () \<and>
   file_cache (snd (s3_ensure_layout s)) = [] \<and>
   metadata_doc (snd (s3_ensure_layout s)) = Some (Json empty_document)"
  by (simp add: s3_ensure_layout_def s3_init_body_def Let_def)

lemma gdrive_absent:
  "\<not> initialized s \<Longrightarrow> metadata_doc s = None \<Longrightarrow>
   fst (get_drive_service s) = Returns () \<and>
   file_cache (snd (get_drive_service s)) = [] \<and>
   metadata_doc (snd (get_drive_service s)) = Some (Json empty_document)"
  by (simp add: get_drive_service_def gdrive_ensure_folder_structure_def Let_def)

lemma local_malformed:
  "\<not> initialized s \<Longrightarrow> metadata_doc s = Some b \<Longrightarrow> b = Not_json \<or> b = Empty_body \<Longrightarrow>
   (\<exists>e. fst (local_ensure_folder_structure s) = Raises e) \<and>
   file_cache (snd (local_ensure_folder_structure s)) = file_cache s \<and>
   \<not> initialized (snd (local_ensure_folder_structure s))"
  by (auto simp: local_ensure_folder_structure_def local_init_body_def local_load_def Let_def)

lemma s3_malformed:
  "\<not> initialized s \<Longrightarrow> \<not> layout_lock s \<Longrightarrow> metadata_doc s = Some Not_json \<Longrightarrow>
   (\<exists>e. fst (s3_ensure_layout s) = Raises e) \<and>
   file_cache (snd (s3_ensure_layout s)) = file_cache s \<and>
   \<not> initialized (snd (s3_ensure_layout s))"
  by (simp add: s3_ensure_layout_def s3_init_body_def s3_load_def Let_def)

lemma gdrive_malformed:
  "\<not> initialized s \<Longrightarrow> metadata_doc s = Some b \<Longrightarrow> b = Not_json \<or> b = Empty_body \<Longrightarrow>
   (\<exists>e. fst (get_drive_service s) = Raises e) \<and>
   file_cache (snd (get_drive_service s)) = file_cache s \<and>
   \<not> initialized (snd (get_drive_service s))"
  by (auto simp: get_drive_service_def gdrive_ensure_folder_structure_def gdrive_load_def Let_def)

text \<open>
  For every adapter that has not yet initialised (and,
  for S3, whose layout lock is free): when the medium has no metadata document, the
  initialisation returns, the cache is empty and the document now holds the JSON value
  \<^verbatim>\<open>{"files":{}}\<close> (the local adapter writes it indented); when the document is there
  and is not JSON, the initialisation raises, the cache is what it was and the adapter
  stays uninitialised.  A document of zero bytes counts as not JSON on the local and
  the Drive adapter.
\<close>

theorem bootstrap_absent_or_malformed:
  assumes "\<not> initialized s" and "\<not> layout_lock s"
  shows "(metadata_doc s = None \<longrightarrow>
            fst (bootstrap a s) = Returns () \<and>
            file_cache (snd (bootstrap a s)) = [] \<and>
            metadata_doc (snd (bootstrap a s)) = Some (Json empty_document)) \<and>
         (\<forall>b. metadata_doc s = Some b \<and> (b = Not_json \<or> (b = Empty_body \<and> a \<noteq> S3)) \<longrightarrow>
            (\<exists>e. fst (bootstrap a s) = Raises e) \<and>
            file_cache (snd (bootstrap a s)) = file_cache s \<and>
            \<not> initialized (snd (bootstrap a s)))"
proof (cases a)
  case Local
  then show ?thesis
    using local_absent [OF assms(1)] local_malformed [OF assms(1)]
    by (auto simp: bootstrap_def)
next
  case S3
  then show ?thesis
    using s3_absent [OF assms] s3_malformed [OF assms]
    by (auto simp: bootstrap_def)
next
  case GDrive
  then show ?thesis
    using gdrive_absent [OF assms(1)] gdrive_malformed [OF assms(1)]
    by (auto simp: bootstrap_def)
qed

theorem bootstrap_absent_or_malformed_witness:
  "\<not> initialized fresh_state \<and> \<not> layout_lock fresh_state \<and> metadata_doc fresh_state = None \<and>
   fst (bootstrap Local fresh_state) = Returns () \<and>
   file_cache (snd (bootstrap Local fresh_state)) = [] \<and>
   metadata_doc (snd (bootstrap Local fresh_state)) = Some (Json empty_document) \<and>
   \<not> initialized garbled_state \<and> \<not> layout_lock garbled_state \<and>
   metadata_doc garbled_state = Some Not_json \<and>
   fst (bootstrap S3 garbled_state) = Raises JSONDecodeError \<and>
   file_cache (snd (bootstrap S3 garbled_state)) = file_cache garbled_state \<and>
   \<not> initialized (snd (bootstrap S3 garbled_state))"
proof -
  have f: "\<not> initialized fresh_state" "\<not> layout_lock fresh_state" "metadata_doc fresh_state = None"
    by (simp_all add: fresh_state_def)
  have g: "\<not> initialized garbled_state" "\<not> layout_lock garbled_state"
    "metadata_doc garbled_state = Some Not_json"
    by (simp_all add: garbled_state_def fresh_state_def)
  have e: "fst (bootstrap S3 garbled_state) = Raises JSONDecodeError"
    by (simp add: bootstrap_def s3_ensure_layout_def s3_init_body_def s3_load_def
        garbled_state_def fresh_state_def Let_def)
  show ?thesis
    using bootstrap_absent_or_malformed [OF f(1) f(2), of Local]
      bootstrap_absent_or_malformed [OF g(1) g(2), of S3] f g e
    by simp
qed

text \<open>
  On the S3 adapter a document of zero bytes is read as \<^verbatim>\<open>{"files":{}}\<close>: whatever the
  cache held, the initialisation returns and the cache is empty.
\<close>

lemma s3_zero_length_resets:
  assumes "\<not> initialized s" and "\<not> layout_lock s" and "metadata_doc s = Some Empty_body"
  shows "fst (bootstrap S3 s) = Returns () \<and>
         file_cache (snd (bootstrap S3 s)) = [] \<and>
         initialized (snd (bootstrap S3 s)) \<and>
         metadata_doc (snd (bootstrap S3 s)) = Some Empty_body"
  using assms
  by (simp add: bootstrap_def s3_ensure_layout_def s3_init_body_def s3_load_def files_items_def
      empty_document_def Let_def)

text \<open>
  Claim C8.  The claim holds of a medium without a document, and of a document that is
  not JSON, on every adapter.  It fails on the S3 adapter for a document of zero
  bytes, which is present and which no JSON parser accepts: \<^verbatim>\<open>_ensure_layout\<close> replaces
  the empty text by \<^verbatim>\<open>{"files":{}}\<close> before parsing, so the initialisation returns and
  the entry of the cache is gone, without an error.  On the same input the local and
  the Drive adapter raise and keep the cache.
\<close>

theorem s3_bootstrap_zero_length_document_resets:
  "metadata_doc zero_length_state = Some Empty_body \<and>
   file_cache zero_length_state = [(''c1'', example_fd)] \<and>
   fst (bootstrap S3 zero_length_state) = Returns () \<and>
   file_cache (snd (bootstrap S3 zero_length_state)) = [] \<and>
   (\<exists>e. fst (bootstrap Local zero_length_state) = Raises e) \<and>
   file_cache (snd (bootstrap Local zero_length_state)) = [(''c1'', example_fd)] \<and>
   (\<exists>e. fst (bootstrap GDrive zero_length_state) = Raises e) \<and>
   file_cache (snd (bootstrap GDrive zero_length_state)) = [(''c1'', example_fd)]"
  by (simp add: bootstrap_def s3_ensure_layout_def s3_init_body_def s3_load_def files_items_def
      local_ensure_folder_structure_def local_init_body_def local_load_def
      get_drive_service_def gdrive_ensure_folder_structure_def gdrive_load_def
      empty_document_def zero_length_state_def fresh_state_def Let_def)

subsection \<open>Publishing the cache after a mutation\<close>

text \<open>
  \<open>add_file_data\<close> on every adapter, \<open>update_file_data\<close> and \<open>delete_file\<close> on the local
  and the S3 adapter, and \<open>update_file_data\<close> on an initialised Drive adapter: a call
  that returns has written the cache and then the whole cache to the medium.
\<close>

lemma publishedI:
  "log s' = log s @ ev @ [Cache_write, Remote_write (Json (model_dump_json (file_cache s')))]
   \<Longrightarrow> published_after_mutation s s'"
  by (simp add: published_after_mutation_def new_events_def Let_def)

lemma local_init_body_log: "\<exists>ev. log (snd (local_init_body s)) = log s @ ev"
  by (simp add: local_init_body_def local_save_metadata_def Let_def split: option.split sum.split)

lemma local_ensure_log: "\<exists>ev. log (snd (local_ensure_folder_structure s)) = log s @ ev"
  using local_init_body_log [of s]
  by (auto simp: local_ensure_folder_structure_def snd_and_then split: outcome.split)

lemma s3_init_body_log: "\<exists>ev. log (snd (s3_init_body s)) = log s @ ev"
  by (simp add: s3_init_body_def Let_def split: option.split sum.split)

lemma s3_ensure_log: "\<exists>ev. log (snd (s3_ensure_layout s)) = log s @ ev"
proof -
  obtain r s2 where b: "s3_init_body (s\<lparr>layout_lock := True\<rparr>) = (r, s2)"
    by (cases "s3_init_body (s\<lparr>layout_lock := True\<rparr>)")
  have "\<exists>ev. log s2 = log s @ ev"
    using s3_init_body_log [of "s\<lparr>layout_lock := True\<rparr>"] b by simp
  then show ?thesis
    by (auto simp: s3_ensure_layout_def Let_def b split: outcome.split)
qed

lemma gdrive_body_log: "\<exists>ev. log (snd (gdrive_ensure_folder_structure s)) = log s @ ev"
  by (simp add: gdrive_ensure_folder_structure_def Let_def split: option.split sum.split)

lemma get_drive_service_log: "\<exists>ev. log (snd (get_drive_service s)) = log s @ ev"
  using gdrive_body_log [of s]
  by (auto simp: get_drive_service_def snd_and_then split: outcome.split)

lemma local_add_file_data_syncs:
  assumes "local_add_file_data c fd s = (Returns (), s')"
  shows "synced s' \<and> published_after_mutation s s'"
proof -
  have "layout_exists s \<or> fst (local_add_file_data c fd s) \<noteq> Returns ()"
    by (simp add: local_add_file_data_def local_save_metadata_def Let_def)
  with assms have le: "layout_exists s" by simp
  have s': "s' = put_metadata (Json (model_dump_json (AList.update c fd (file_cache s))))
                  (cache_write (AList.update c fd) s)"
    using assms le by (simp add: local_add_file_data_def local_save_metadata_def Let_def read_cache_def)
  show ?thesis
    by (rule conjI, simp add: synced_def s', rule publishedI [where ev = "[]"], simp add: s')
qed

lemma s3_add_file_data_syncs:
  assumes "s3_add_file_data c fd s = (Returns (), s')"
  shows "synced s' \<and> published_after_mutation s s'"
proof -
  obtain r1 s1 where b: "s3_ensure_layout s = (r1, s1)" by (cases "s3_ensure_layout s")
  obtain ev where ev: "log s1 = log s @ ev" using s3_ensure_log [of s] b by auto
  have r1: "r1 = Returns ()" using assms b by (cases r1) (simp_all add: s3_add_file_data_def)
  have s': "s' = put_metadata (Json (model_dump_json (AList.update c fd (file_cache s1))))
                  (cache_write (AList.update c fd) s1)"
    using assms b r1 by (simp add: s3_add_file_data_def s3_push_cache_def Let_def read_cache_def)
  show ?thesis
    by (rule conjI, simp add: synced_def s', rule publishedI [where ev = ev], simp add: s' ev)
qed

lemma gdrive_add_file_data_syncs:
  assumes "gdrive_add_file_data c fd s = (Returns (), s')"
  shows "synced s' \<and> published_after_mutation s s'"
proof -
  obtain r1 s1 where b: "get_drive_service s = (r1, s1)" by (cases "get_drive_service s")
  obtain ev where ev: "log s1 = log s @ ev" using get_drive_service_log [of s] b by auto
  have r1: "r1 = Returns ()" using assms b by (cases r1) (simp_all add: gdrive_add_file_data_def)
  have s': "s' = put_metadata (Json (model_dump_json (AList.update c fd (file_cache s1))))
                  (cache_write (AList.update c fd) s1)"
    using assms b r1 by (simp add: gdrive_add_file_data_def gdrive_update_metadata_def Let_def read_cache_def)
  show ?thesis
    by (rule conjI, simp add: synced_def s', rule publishedI [where ev = ev], simp add: s' ev)
qed

lemma add_file_data_syncs:
  "add_file_data a c fd s = (Returns (), s') \<Longrightarrow> synced s' \<and> published_after_mutation s s'"
  using local_add_file_data_syncs s3_add_file_data_syncs gdrive_add_file_data_syncs
  by (cases a) (simp_all add: add_file_data_def)


lemma update_in_cache_Returns:
  assumes "update_in_cache c updates s = (Returns (), s1)"
  shows "\<exists>f. s1 = cache_write f s"
  using assms
  by (auto simp: update_in_cache_def split: option.splits sum.splits)

lemma local_update_file_data_syncs:
  assumes "local_update_file_data c updates s = (Returns (), s')"
  shows "synced s' \<and> published_after_mutation s s'"
proof -
  obtain r1 s1 where u: "update_in_cache c updates s = (r1, s1)"
    by (cases "update_in_cache c updates s")
  have r1: "r1 = Returns ()" using assms u by (cases r1) (simp_all add: local_update_file_data_def)
  obtain f where s1: "s1 = cache_write f s" using update_in_cache_Returns u r1 by blast
  have "layout_exists s1 \<or> fst (local_save_metadata s1) \<noteq> Returns ()"
    by (simp add: local_save_metadata_def Let_def)
  with assms u r1 have le: "layout_exists s1" by (simp add: local_update_file_data_def)
  have s': "s' = put_metadata (Json (model_dump_json (file_cache s1))) s1"
    using assms u r1 le by (simp add: local_update_file_data_def local_save_metadata_def Let_def read_cache_def)
  show ?thesis
    by (rule conjI, simp add: synced_def s', rule publishedI [where ev = "[]"], simp add: s' s1)
qed

lemma s3_update_file_data_syncs:
  assumes "s3_update_file_data c updates s = (Returns (), s')"
  shows "synced s' \<and> published_after_mutation s s'"
proof -
  obtain r0 s0 where b: "s3_ensure_layout s = (r0, s0)" by (cases "s3_ensure_layout s")
  obtain ev where ev: "log s0 = log s @ ev" using s3_ensure_log [of s] b by auto
  have r0: "r0 = Returns ()" using assms b by (cases r0) (simp_all add: s3_update_file_data_def)
  obtain r1 s1 where u: "update_in_cache c updates s0 = (r1, s1)"
    by (cases "update_in_cache c updates s0")
  have r1: "r1 = Returns ()" using assms b r0 u by (cases r1) (simp_all add: s3_update_file_data_def)
  obtain f where s1: "s1 = cache_write f s0" using update_in_cache_Returns u r1 by blast
  have s': "s' = put_metadata (Json (model_dump_json (file_cache s1))) s1"
    using assms b r0 u r1 by (simp add: s3_update_file_data_def s3_push_cache_def Let_def read_cache_def)
  show ?thesis
    by (rule conjI, simp add: synced_def s', rule publishedI [where ev = ev], simp add: s' s1 ev)
qed

lemma get_drive_service_initialized: "initialized s \<Longrightarrow> get_drive_service s = (Returns (), s)"
  by (simp add: get_drive_service_def)

lemma update_in_cache_initialized:
  "initialized (snd (update_in_cache c updates s)) = initialized s"
  by (simp add: update_in_cache_def split: option.split sum.split)

lemma gdrive_update_file_data_syncs:
  assumes "gdrive_update_file_data c updates s = (Returns (), s')" and init: "initialized s"
  shows "synced s' \<and> published_after_mutation s s'"
proof -
  obtain r1 s1 where u: "update_in_cache c updates s = (r1, s1)"
    by (cases "update_in_cache c updates s")
  have r1: "r1 = Returns ()" using assms u by (cases r1) (simp_all add: gdrive_update_file_data_def)
  obtain f where s1: "s1 = cache_write f s" using update_in_cache_Returns u r1 by blast
  have i1: "initialized s1" using init s1 by simp
  have s': "s' = put_metadata (Json (model_dump_json (file_cache s1))) s1"
    using assms u r1 get_drive_service_initialized [OF i1]
    by (simp add: gdrive_update_file_data_def gdrive_update_metadata_def Let_def read_cache_def)
  show ?thesis
    by (rule conjI, simp add: synced_def s', rule publishedI [where ev = "[]"], simp add: s' s1)
qed

lemma update_file_data_syncs:
  "update_file_data a c updates s = (Returns (), s') \<Longrightarrow> a \<noteq> GDrive \<or> initialized s \<Longrightarrow>
   synced s' \<and> published_after_mutation s s'"
  using local_update_file_data_syncs s3_update_file_data_syncs gdrive_update_file_data_syncs
  by (cases a) (simp_all add: update_file_data_def)

lemma remove_object_frame [simp]:
  "processing_locks (remove_object r s) = processing_locks s"
  "tasks (remove_object r s) = tasks s"
  "initialized (remove_object r s) = initialized s"
  "file_cache (remove_object r s) = file_cache s"
  "metadata_doc (remove_object r s) = metadata_doc s"
  "layout_exists (remove_object r s) = layout_exists s"
  "layout_lock (remove_object r s) = layout_lock s"
  "next_id (remove_object r s) = next_id s"
  "now (remove_object r s) = now s"
  "log (remove_object r s) = log s @ [Object_delete r]"
  "objects (remove_object r s) = AList.delete r (objects s)"
  by (simp_all add: remove_object_def)

lemma local_delete_file_syncs:
  assumes "local_delete_file c s = (Returns (), s')"
  shows "synced s' \<and> published_after_mutation s s' \<and> \<not> file_exists c s'"
proof -
  obtain fd where g: "get_file_data_plain c s = Returns fd"
    using assms by (cases "get_file_data_plain c s") (simp_all add: local_delete_file_def)
  define s1 where "s1 = (if map_of (objects s) (file_reference fd) \<noteq> None
                         then remove_object (file_reference fd) s else s)"
  define s2 where "s2 = cache_write (\<lambda>files. if map_of files c \<noteq> None then AList.delete c files else files) s1"
  have eq: "local_delete_file c s = local_save_metadata s2"
    using g by (simp add: local_delete_file_def Let_def s1_def s2_def)
  have "layout_exists s2 \<or> fst (local_save_metadata s2) \<noteq> Returns ()"
    by (simp add: local_save_metadata_def Let_def)
  with assms eq have le: "layout_exists s2" by simp
  have s': "s' = put_metadata (Json (model_dump_json (file_cache s2))) s2"
    using assms eq le by (simp add: local_save_metadata_def Let_def read_cache_def)
  have l1: "\<exists>ev. log s1 = log s @ ev" by (simp add: s1_def)
  then obtain ev where ev: "log s1 = log s @ ev" by blast
  have gone: "map_of (file_cache s2) c = None"
    by (simp add: s2_def delete_conv')
  show ?thesis
  proof (intro conjI)
    show "synced s'" by (simp add: synced_def s')
    show "published_after_mutation s s'"
      by (rule publishedI [where ev = ev]) (simp add: s' s2_def ev)
    show "\<not> file_exists c s'" using gone by (simp add: file_exists_def read_cache_def s')
  qed
qed

lemma s3_delete_file_syncs:
  assumes "s3_delete_file c s = (Returns (), s')"
  shows "synced s' \<and> published_after_mutation s s' \<and> \<not> file_exists c s'"
proof -
  obtain r0 s0 where b: "s3_ensure_layout s = (r0, s0)" by (cases "s3_ensure_layout s")
  obtain ev0 where ev0: "log s0 = log s @ ev0" using s3_ensure_log [of s] b by auto
  have r0: "r0 = Returns ()" using assms b by (cases r0) (simp_all add: s3_delete_file_def)
  obtain fd where g: "get_file_data_plain c s0 = Returns fd"
    using assms b r0 by (cases "get_file_data_plain c s0") (simp_all add: s3_delete_file_def)
  define s2 where "s2 = cache_write (\<lambda>files. if map_of files c \<noteq> None then AList.delete c files else files)
                          (remove_object (file_reference fd) s0)"
  have s': "s' = put_metadata (Json (model_dump_json (file_cache s2))) s2"
    using assms b r0 g by (simp add: s3_delete_file_def s3_push_cache_def Let_def read_cache_def s2_def)
  have gone: "map_of (file_cache s2) c = None"
    by (simp add: s2_def delete_conv')
  show ?thesis
  proof (intro conjI)
    show "synced s'" by (simp add: synced_def s')
    show "published_after_mutation s s'"
      by (rule publishedI [where ev = "ev0 @ [Object_delete (file_reference fd)]"]) (simp add: s' s2_def ev0)
    show "\<not> file_exists c s'" using gone by (simp add: file_exists_def read_cache_def s')
  qed
qed


lemma delete_file_syncs:
  "delete_file a c s = (Returns (), s') \<Longrightarrow> a \<noteq> GDrive \<Longrightarrow>
   synced s' \<and> published_after_mutation s s' \<and> \<not> file_exists c s' \<and>
   get_file_data_plain c s' = Raises (ValueError (no_file_msg c))"
  using local_delete_file_syncs [of c s s'] s3_delete_file_syncs [of c s s']
  by (cases a) (auto simp: delete_file_def file_exists_def get_file_data_plain_def)

lemma delete_file_unknown:
  "map_of (file_cache s) c = None \<Longrightarrow> a \<noteq> S3 \<or> initialized s \<Longrightarrow>
   delete_file a c s = (Raises (ValueError (no_file_msg c)), s)"
  by (cases a) (simp_all add: delete_file_def local_delete_file_def s3_delete_file_def
      gdrive_delete_file_def get_file_data_plain_def read_cache_def s3_ensure_layout_def)

text \<open>
  The Drive adapter's \<open>update_file_data\<close> reads the cache before it asks for the
  service.  Called first after a start, the initialisation in between replaces the
  cache, and the document written is the cache as it was before.
\<close>

lemma gdrive_update_before_initialisation:
  "fst (update_file_data GDrive ''c1'' [Set_name ''b.pdf''] fresh_state) = Returns () \<and>
   file_cache (snd (update_file_data GDrive ''c1'' [Set_name ''b.pdf''] fresh_state)) = [] \<and>
   metadata_doc (snd (update_file_data GDrive ''c1'' [Set_name ''b.pdf''] fresh_state))
     = Some (Json (model_dump_json [(''c1'', example_fd\<lparr>name := ''b.pdf''\<rparr>)])) \<and>
   \<not> synced (snd (update_file_data GDrive ''c1'' [Set_name ''b.pdf''] fresh_state))"
  by (simp add: update_file_data_def gdrive_update_file_data_def update_in_cache_def
      get_drive_service_def gdrive_ensure_folder_structure_def gdrive_update_metadata_def
      read_cache_def synced_def fresh_state_def Let_def model_dump_json_def)

text \<open>
  Claim C4.  The claim holds for the operations named above.  It fails for
  \<open>delete_file\<close> of the Drive adapter, which returns without any effect: on the
  initialised adapter nothing is written to the cache or to the medium, and on an
  adapter that has not initialised the call returns while the medium has no document
  at all.
\<close>

theorem gdrive_delete_file_publishes_nothing:
  "delete_file GDrive ''c1'' example_state = (Returns (), example_state) \<and>
   new_events example_state example_state = [] \<and>
   \<not> published_after_mutation example_state example_state \<and>
   delete_file GDrive ''c1'' fresh_state = (Returns (), fresh_state) \<and>
   \<not> synced fresh_state"
  by (simp add: delete_file_def gdrive_delete_file_def get_file_data_plain_def read_cache_def
      new_events_def published_after_mutation_def synced_def example_state_def fresh_state_def)

subsection \<open>Content addressing\<close>

lemma uploads_frame [simp]:
  "uploads (cache_write f s) = uploads s"
  "uploads (put_metadata b s) = uploads s"
  "uploads (write_object r c s) = Suc (uploads s)"
  "uploads (launch k ep raw s) = uploads s"
  "uploads (s\<lparr>layout_lock := l\<rparr>) = uploads s"
  "uploads (s\<lparr>next_id := n\<rparr>) = uploads s"
  by (simp_all add: uploads_def launch_def)

lemma launch_frame [simp]:
  "initialized (launch k ep raw s) = initialized s"
  "file_cache (launch k ep raw s) = file_cache s"
  "log (launch k ep raw s) = log s"
  by (simp_all add: launch_def)

lemma local_save_metadata_uploads:
  "uploads (snd (local_save_metadata s)) = uploads s"
  "initialized (snd (local_save_metadata s)) = initialized s"
  by (simp_all add: local_save_metadata_def Let_def)




lemma uploads_flag [simp]: "uploads (s\<lparr>initialized := i\<rparr>) = uploads s"
  by (simp add: uploads_def)









lemma add_file_data_initialized:
  "initialized s \<Longrightarrow> initialized (snd (add_file_data a c fd s))"
  by (cases a; simp add: add_file_data_def local_add_file_data_def s3_add_file_data_def
      gdrive_add_file_data_def local_save_metadata_uploads s3_ensure_layout_def
      get_drive_service_def s3_push_cache_def gdrive_update_metadata_def Let_def)


subsection \<open>Derivation on an initialised adapter\<close>

text \<open>
  What \<open>derive\<close> keeps.  For a PDF or an image, a field that is set stays as it is; for
  every MIME type the reference and the name stay.
\<close>

lemma derive_write_once_supported:
  assumes "derive co ep raw fd = Inr fd'"
    and "raw_mime_type raw = ''application/pdf'' \<or> startswith (raw_mime_type raw) ''image/''"
  shows "(\<forall>t. raw_ocr fd = Some t \<longrightarrow> raw_ocr fd' = Some t) \<and>
         (\<forall>u. summary fd = Some u \<longrightarrow> summary fd' = Some u) \<and>
         file_reference fd' = file_reference fd \<and> name fd' = name fd \<and>
         mime_type fd' = mime_type fd \<and> fsize fd' = fsize fd \<and> modified_time fd' = modified_time fd"
  using assms
  by (auto simp: derive_def Let_def split: if_splits sum.splits option.splits)


text \<open>What one derivation call does to the cache of an initialised adapter.\<close>

lemma ensure_ocr_cache_cases:
  assumes inc: "map_of (file_cache s) c = Some fd" and init: "initialized s"
  shows "initialized (snd (ensure_ocr a co c ep raw s)) \<and>
         (file_cache (snd (ensure_ocr a co c ep raw s)) = file_cache s \<or>
          (\<exists>rw fd'. derive co ep rw fd = Inr fd' \<and>
                    (raw = None \<longrightarrow> raw_mime_type rw = mime_type fd) \<and>
                    (\<forall>r. raw = Some r \<longrightarrow> rw = r) \<and>
                    file_cache (snd (ensure_ocr a co c ep raw s)) = AList.update c fd' (file_cache s)))"
proof (cases "ep = P_none")
  case True
  then show ?thesis using init by (simp add: ensure_ocr_def)
next
  case False
  define s1 where "s1 = (if processing_locks s c = None
                then s\<lparr>processing_locks := (processing_locks s)(c \<mapsto> False)\<rparr> else s)"
  define s2 where "s2 = acquire c s1"
  have c2: "file_cache s2 = file_cache s" "initialized s2" "file_cache s1 = file_cache s" "initialized s1"
    using init by (simp_all add: s1_def s2_def)
  define need where "need = (raw_ocr fd = None \<or> (ep = P_summary \<and> summary fd = None))"
  define m where "m = (case raw of None \<Rightarrow> download_file a c s2 | Some r \<Rightarrow> (Returns r, s2))"
  have ms: "snd m = s2"
    using c2 by (simp add: m_def download_file_cache split: option.split)
  have eq: "ensure_ocr a co c ep raw s =
     (if locked s1 c then (Blocked, s1)
      else if need
           then and_then m (\<lambda>raw s3.
                   case derive co ep raw fd of
                     Inl e \<Rightarrow> (Raises e, s3)
                   | Inr fd' \<Rightarrow>
                       and_then (add_file_data a c fd' s3) (\<lambda>_ s4. (Returns (), release c s4)))
           else (Returns (), release c s2))"
    unfolding ensure_ocr_found [OF inc False] Let_def s1_def [symmetric] need_def m_def s2_def
    by simp
  have rel: "\<And>t. initialized (release c t) = initialized t" by (simp add: release_def)
  show ?thesis
  proof (cases "locked s1 c \<or> \<not> need")
    case True
    then show ?thesis using c2 by (auto simp: eq rel)
  next
    case False
    obtain r0 where m0: "m = (r0, s2)" using ms by (cases m) simp
    show ?thesis
    proof (cases r0)
      case (Returns rw)
      have mime: "raw = None \<longrightarrow> raw_mime_type rw = mime_type fd"
      proof
        assume "raw = None"
        then have "download_file a c s2 = (Returns rw, s2)" using m0 Returns by (simp add: m_def)
        moreover have "get_file_data_plain c s2 = Returns fd"
          using inc c2 by (simp add: get_file_data_plain_def read_cache_def)
        ultimately show "raw_mime_type rw = mime_type fd"
          using c2(2)
          by (cases a) (auto simp: download_file_def local_download_file_def s3_download_file_def
              gdrive_download_file_def s3_ensure_layout_def get_drive_service_def
              split: option.splits)
      qed
      have given: "\<forall>r. raw = Some r \<longrightarrow> rw = r" using m0 Returns by (auto simp: m_def)
      show ?thesis
      proof (cases "derive co ep rw fd")
        case (Inl e)
        with False m0 Returns have "snd (ensure_ocr a co c ep raw s) = s2" by (simp add: eq)
        with c2 show ?thesis by simp
      next
        case (Inr fd1)
        obtain r4 s4 where a4: "add_file_data a c fd1 s2 = (r4, s4)"
          by (cases "add_file_data a c fd1 s2")
        have c4: "file_cache s4 = AList.update c fd1 (file_cache s)" "initialized s4"
          using add_file_data_cache [OF c2(2), of a c fd1] add_file_data_initialized [OF c2(2), of a c fd1]
            a4 c2 by simp_all
        have "file_cache (snd (ensure_ocr a co c ep raw s)) = file_cache s4"
          "initialized (snd (ensure_ocr a co c ep raw s)) = initialized s4"
          using False m0 Returns Inr a4 by (cases r4; simp add: eq rel)+
        with c4 Inr mime given show ?thesis by auto
      qed
    next
      case (Raises e)
      with False m0 have "snd (ensure_ocr a co c ep raw s) = s2" by (simp add: eq)
      with c2 show ?thesis by simp
    next
      case Blocked
      with False m0 have "snd (ensure_ocr a co c ep raw s) = s2" by (simp add: eq)
      with c2 show ?thesis by simp
    qed
  qed
qed



lemma ensure_ocr_write_once_supported:
  assumes inc: "map_of (file_cache s) c = Some fd" and init: "initialized s"
    and mime: "case raw of
                 None \<Rightarrow> mime_type fd = ''application/pdf'' \<or> startswith (mime_type fd) ''image/''
               | Some r \<Rightarrow> raw_mime_type r = ''application/pdf'' \<or> startswith (raw_mime_type r) ''image/''"
    and after: "map_of (file_cache (snd (ensure_ocr a co c ep raw s))) c = Some fd'"
  shows "(\<forall>t. raw_ocr fd = Some t \<longrightarrow> raw_ocr fd' = Some t) \<and>
         (\<forall>u. summary fd = Some u \<longrightarrow> summary fd' = Some u)"
proof -
  from ensure_ocr_cache_cases [OF inc init, of a co ep raw]
  consider (same) "file_cache (snd (ensure_ocr a co c ep raw s)) = file_cache s"
    | (derived) rw fd1 where "derive co ep rw fd = Inr fd1"
        "raw = None \<longrightarrow> raw_mime_type rw = mime_type fd" "\<forall>r. raw = Some r \<longrightarrow> rw = r"
        "file_cache (snd (ensure_ocr a co c ep raw s)) = AList.update c fd1 (file_cache s)"
    by blast
  then show ?thesis
  proof cases
    case same
    with after inc show ?thesis by simp
  next
    case derived
    have "raw_mime_type rw = ''application/pdf'' \<or> startswith (raw_mime_type rw) ''image/''"
      using mime derived(2,3) by (cases raw) auto
    from derive_write_once_supported [OF derived(1) this]
    have "(\<forall>t. raw_ocr fd = Some t \<longrightarrow> raw_ocr fd1 = Some t) \<and>
          (\<forall>u. summary fd = Some u \<longrightarrow> summary fd1 = Some u)" by blast
    moreover have "fd' = fd1" using after derived(4) by (simp add: update_conv')
    ultimately show ?thesis by simp
  qed
qed

lemma ensure_ocr_summary_set_unchanged:
  assumes inc: "map_of (file_cache s) c = Some fd"
    and su: "summary fd \<noteq> None" and inv: "summary fd \<noteq> None \<longrightarrow> raw_ocr fd \<noteq> None"
  shows "file_cache (snd (ensure_ocr a co c ep raw s)) = file_cache s"
  using ensure_ocr_complete_unchanged [OF inc, of a co ep raw] su inv by blast




text \<open>
  The same through \<open>add_file\<close>: in a new process the lock table is empty, so an upload
  of the bytes as \<^verbatim>\<open>text/plain\<close> at the summary level creates the task, and once it has
  run the stored OCR text is replaced.
\<close>

lemma add_file_overwrites_stored_ocr_text:
  "map_of (file_cache restarted_state) ''c1'' = Some ocr_done_fd \<and>
   fst (add_file Local example_hash (run_pending Local failing_ocr) plain_text_file P_summary restarted_state)
     = Returns \<lparr>r_checksum = ''c1'', is_processing = False, file_data = ocr_done_fd\<rparr> \<and>
   map_of (file_cache (snd (add_file Local example_hash (run_pending Local failing_ocr) plain_text_file P_summary restarted_state))) ''c1''
     = Some (ocr_done_fd\<lparr>raw_ocr := Some (unsupported_msg ''text/plain''),
                          summary := Some (unsupported_msg ''text/plain'')\<rparr>)"
  by (simp add: add_file_def add_file_start_def local_add_file_start_def local_ensure_folder_structure_def
      run_pending_def launch_def restarted_state_def
      ensure_ocr_def idle_state_def example_state_def ocr_done_fd_def example_fd_def
      plain_text_file_def example_raw_def failing_ocr_def example_hash_def
      read_cache_def locked_def acquire_def release_def get_file_data_plain_def derive_def
      add_file_data_def local_add_file_data_def local_save_metadata_def cache_write_def
      put_metadata_def startswith_def unsupported_msg_def Let_def)

text \<open>
  Claim C7.  On the entries that derivation produces the first two parts of the claim
  hold: an entry with its summary set is left alone by every later call, and the
  summary is set only if the OCR text is (\<open>ensure_ocr_summary_set_unchanged\<close>,
  \<open>derivation_keeps_complete_metadata\<close>).  Write-once fails for \<open>raw_ocr\<close>.  The
  docstring of \<^verbatim>\<open>ensure_ocr\<close> says that it updates the OCR and the summary "if not
  available", and the branch for PDF and images tests \<^verbatim>\<open>if file_data.raw_ocr is None\<close>
  before it writes (\<open>ensure_ocr_write_once_supported\<close>).  The branch for the other MIME
  types (storage.py, lines 83 and 84) writes both fields without a test.  So for the
  entry of ''c1'', whose OCR text is stored and whose summary is not, a call at the
  summary level with the same bytes declared as \<^verbatim>\<open>text/plain\<close> returns and has replaced
  the stored OCR text by the "Cannot perform OCR" text; with the bytes declared as a
  PDF the text is kept.  \<open>add_file\<close> makes this call in a new process
  (\<open>add_file_overwrites_stored_ocr_text\<close>).
\<close>

theorem derivation_overwrites_stored_ocr_text:
  "map_of (file_cache idle_state) ''c1'' = Some ocr_done_fd \<and>
   raw_ocr ocr_done_fd = Some ''text of the file'' \<and> summary ocr_done_fd = None \<and>
   fst (ensure_ocr Local failing_ocr ''c1'' P_summary (Some plain_text_file) idle_state) = Returns () \<and>
   map_of (file_cache (snd (ensure_ocr Local failing_ocr ''c1'' P_summary (Some plain_text_file) idle_state))) ''c1''
     = Some (ocr_done_fd\<lparr>raw_ocr := Some (unsupported_msg ''text/plain''),
                          summary := Some (unsupported_msg ''text/plain'')\<rparr>) \<and>
   unsupported_msg ''text/plain'' \<noteq> ''text of the file'' \<and>
   map_of (file_cache (snd (ensure_ocr Local failing_ocr ''c1'' P_summary (Some example_raw) idle_state))) ''c1''
     = Some (ocr_done_fd\<lparr>summary := Some ''text of the file''\<rparr>)"
  by (simp add: ensure_ocr_def idle_state_def example_state_def ocr_done_fd_def example_fd_def
      plain_text_file_def example_raw_def failing_ocr_def
      read_cache_def locked_def acquire_def release_def get_file_data_plain_def derive_def
      add_file_data_def local_add_file_data_def local_save_metadata_def cache_write_def
      put_metadata_def startswith_def unsupported_msg_def Let_def)

subsection \<open>The same bytes twice\<close>













lemma launch_objects [simp]: "objects (launch k ep raw s) = objects s"
  by (simp add: launch_def)




text \<open>
  The first initialisation of the local adapter makes the folders, so only an adapter
  whose flag is set without them lacks them.
\<close>

lemma local_bootstrap_layout:
  assumes "\<not> initialized s" and "bootstrap Local s = (Returns (), s0)"
  shows "layout_exists s0"
  using assms
  by (auto simp: bootstrap_def local_ensure_folder_structure_def local_init_body_def
      local_save_metadata_def and_then_def Let_def cache_write_def put_metadata_def
      split: option.splits sum.splits if_splits)

text \<open>
  A first upload on the S3 adapter, from its start, at the summary level, with the task
  run during the \<^verbatim>\<open>sleep\<close>: the response carries the entry as stored, the cache has it
  with both derived fields, and the medium has the one object.
\<close>

lemma add_file_s3_example:
  "fst (add_file S3 example_hash (run_pending S3 working_ocr) example_raw P_summary fresh_state)
     = Returns \<lparr>r_checksum = ''c1'', is_processing = False,
         file_data = \<lparr>file_reference = ''LLMDocumentStore/files/c1-a.pdf'', name = ''a.pdf'',
           mime_type = ''application/pdf'', fsize = 3, modified_time = ''t1'',
           raw_ocr = None, summary = None\<rparr>\<rparr> \<and>
   map_of (file_cache (snd (add_file S3 example_hash (run_pending S3 working_ocr) example_raw P_summary fresh_state))) ''c1''
     = Some \<lparr>file_reference = ''LLMDocumentStore/files/c1-a.pdf'', name = ''a.pdf'',
           mime_type = ''application/pdf'', fsize = 3, modified_time = ''t1'',
           raw_ocr = Some ''text of the file'', summary = Some ''short''\<rparr> \<and>
   objects (snd (add_file S3 example_hash (run_pending S3 working_ocr) example_raw P_summary fresh_state))
     = [(''LLMDocumentStore/files/c1-a.pdf'', ''abc'')]"
  by (simp add: add_file_def add_file_start_def s3_add_file_start_def s3_ensure_layout_def s3_init_body_def
      s3_add_file_data_def s3_push_cache_def files_prefix_def write_object_def
      run_pending_def launch_def working_ocr_def
      ensure_ocr_def fresh_state_def
      example_raw_def example_hash_def empty_document_def
      read_cache_def locked_def acquire_def release_def get_file_data_plain_def derive_def
      add_file_data_def cache_write_def
      put_metadata_def startswith_def Let_def)

text \<open>A first upload on the local adapter, with nothing run during the \<^verbatim>\<open>sleep\<close>.\<close>

lemma add_file_first_example:
  "add_file Local example_hash (\<lambda>s. s) example_raw P_none empty_state =
     (Returns \<lparr>r_checksum = ''c1'', is_processing = False, file_data = first_fd\<rparr>, after_first)"
  by (simp add: add_file_def add_file_start_def local_add_file_start_def
      local_ensure_folder_structure_def local_add_file_data_def local_save_metadata_def
      write_object_def cache_write_def put_metadata_def launch_def locked_def read_cache_def
      files_folder_def example_hash_def example_raw_def empty_state_def after_first_def first_fd_def
      Let_def)



subsection \<open>Concurrent first calls\<close>

text \<open>
  A single task run through its pieces does what the sequential functions above do.
\<close>

lemma local_alone:
  "run_tasks local_init_step [0, 0] ([At_start], s) =
     ([Finished (fst (local_ensure_folder_structure s))], snd (local_ensure_folder_structure s))"
  by (cases "local_init_body s"; cases "fst (local_init_body s)")
    (auto simp: local_init_step_def local_ensure_folder_structure_def and_then_def)

lemma s3_alone:
  "\<not> layout_lock s \<Longrightarrow>
   run_tasks s3_init_step [0, 0] ([At_start], s) =
     ([Finished (fst (s3_ensure_layout s))], snd (s3_ensure_layout s))"
  by (cases "s3_init_body (s\<lparr>layout_lock := True\<rparr>)"; cases "fst (s3_init_body (s\<lparr>layout_lock := True\<rparr>))")
    (auto simp: s3_init_step_def s3_enter_lock_def s3_ensure_layout_def Let_def)

text \<open>The S3 adapter, with its lock, under the schedule used below for the local one.\<close>

lemma s3_same_schedule:
  "fst (run_tasks s3_init_step [0, 1, 0, 1] ([At_start, At_start], fresh_state))
     = [Finished (Returns ()), Finished (Returns ())] \<and>
   init_runs (snd (run_tasks s3_init_step [0, 1, 0, 1] ([At_start, At_start], fresh_state))) = 1"
  by (simp add: s3_init_step_def s3_enter_lock_def s3_init_body_def
      cache_write_def put_metadata_def read_cache_def init_runs_def fresh_state_def Let_def)

text \<open>
  Claim C9.  The claim holds of the S3 adapter, which has \<^verbatim>\<open>_layout_lock\<close>.  The local
  and the Drive adapter have only the flag.  Two first calls on the local adapter, each
  suspended after the test of the flag and then resumed, both run the body.
\<close>

theorem local_first_calls_interleaved_run_body_twice:
  "init_runs fresh_state = 0 \<and>
   fst (run_tasks local_init_step [0, 1, 0, 1] ([At_start, At_start], fresh_state))
     = [Finished (Returns ()), Finished (Returns ())] \<and>
   init_runs (snd (run_tasks local_init_step [0, 1, 0, 1] ([At_start, At_start], fresh_state))) = 2"
  by (simp add: local_init_step_def local_init_body_def local_save_metadata_def local_load_def
      files_items_def build_files.simps model_dump_json_def
      cache_write_def put_metadata_def read_cache_def init_runs_def fresh_state_def Let_def)

end
